theory Spec2Isabelle
  imports Complex_Main "HOL-Library.Sublist"
begin

section \<open>Values of the JavaScript runtime\<close>

text \<open>
  A JavaScript number is an IEEE double. A finite double is a rational, and it is
  modelled by its rational value; the negative zero and the two infinities are values of
  their own (\<open>Finite 0\<close> is the positive zero). These are the numbers a JSON text can
  hold: NaN is not among them, it only arises from arithmetic (see \<open>computed\<close> below).
\<close>

datatype number = Finite rat | NegZero | PosInfinity | NegInfinity

fun is_zero :: "number \<Rightarrow> bool" where
  "is_zero (Finite x) = (x = 0)"
| "is_zero NegZero = True"
| "is_zero _ = False"

fun is_infinite :: "number \<Rightarrow> bool" where
  "is_infinite PosInfinity = True"
| "is_infinite NegInfinity = True"
| "is_infinite _ = False"

text \<open>The sign bit.\<close>

fun is_negative :: "number \<Rightarrow> bool" where
  "is_negative (Finite x) = (x < 0)"
| "is_negative NegZero = True"
| "is_negative PosInfinity = False"
| "is_negative NegInfinity = True"

text \<open>The rational value of a finite number (both zeros have the value 0).\<close>

fun finite_value :: "number \<Rightarrow> rat" where
  "finite_value (Finite x) = x"
| "finite_value _ = 0"

definition signed_zero :: "bool \<Rightarrow> number" where
  "signed_zero negative = (if negative then NegZero else Finite 0)"

definition signed_infinity :: "bool \<Rightarrow> number" where
  "signed_infinity negative = (if negative then NegInfinity else PosInfinity)"

subsection \<open>Rounding to the nearest double\<close>

text \<open>
  Every arithmetic operation gives the double nearest to the exact result, a tie going
  to the even significand (IEEE 754 binary64, round to nearest, ties to even). A double
  has a significand of 53 bits; the smallest exponent of a normal double is \<open>-1022\<close>,
  below it the spacing stays \<open>2^-1074\<close>; a result that rounds to \<open>2^1024\<close> or more is
  an infinity, and a result that rounds to zero keeps its sign.
\<close>

function bit_length :: "int \<Rightarrow> nat" where
  "bit_length n = (if n \<le> 0 then 0 else Suc (bit_length (n div 2)))"
  by pat_completeness auto
termination
  by (relation "measure nat") auto

definition pow2 :: "int \<Rightarrow> rat" where
  "pow2 e = (if 0 \<le> e then 2 ^ nat e else 1 / 2 ^ nat (- e))"

text \<open>For \<open>a > 0\<close>, the exponent \<open>e\<close> with \<open>2^e \<le> a < 2^(e+1)\<close>.\<close>

definition floor_log2 :: "rat \<Rightarrow> int" where
  "floor_log2 a =
     (let e0 = int (bit_length (fst (quotient_of a))) - int (bit_length (snd (quotient_of a)))
      in if pow2 e0 \<le> a then e0 else e0 - 1)"

definition round_half_even :: "rat \<Rightarrow> int" where
  "round_half_even m =
     (let f = \<lfloor>m\<rfloor>; d = m - of_int f
      in if d < 1 / 2 then f
         else if 1 / 2 < d then f + 1
         else if even f then f else f + 1)"

definition round_double :: "rat \<Rightarrow> number" where
  "round_double r =
     (if r = 0 then Finite 0
      else
        (let e = floor_log2 \<bar>r\<bar>;
             q = pow2 (max e (- 1022) - 52);
             n = round_half_even (\<bar>r\<bar> / q)
         in if 1024 \<le> e then signed_infinity (r < 0)
            else if e = 1023 then
              (if 2 ^ 53 \<le> n then signed_infinity (r < 0)
               else Finite (if r < 0 then - (of_int n * q) else of_int n * q))
            else if n = 0 then signed_zero (r < 0)
            else Finite (if r < 0 then - (of_int n * q) else of_int n * q)))"

subsection \<open>Values, errors and the operators the program uses\<close>

text \<open>
  The values \<open>JSON.parse\<close> and a request body hold. A string is a sequence of
  8-bit characters (the code units U+0000 to U+00FF). An object is the list of its
  properties; a property that is not listed reads as \<open>undefined\<close>, which is
  \<open>None\<close> wherever a property is read.
\<close>

datatype json =
    JNull
  | JBool bool
  | JNum number
  | JStr string
  | JArr "json list"
  | JObj "(string \<times> json) list"

text \<open>Thrown values: every one is an \<open>Error\<close> object; the handlers read its message.\<close>

datatype js_error = Error string | TypeError string | BSONError string

fun message :: "js_error \<Rightarrow> string" where
  "message (Error m) = m"
| "message (TypeError m) = m"
| "message (BSONError m) = m"

text \<open>
  \<open>v.k\<close> for a value \<open>v\<close> other than \<open>null\<close> and one of the property names
  the program reads (none of them is a property of a string, a number, a boolean or an
  array). Reading a property of \<open>null\<close> throws; the callers handle that case first.
\<close>

fun get_prop :: "json \<Rightarrow> string \<Rightarrow> json option" where
  "get_prop (JObj kvs) k = map_of kvs k"
| "get_prop _ k = None"

text \<open>
  \<open>!!v\<close>: the falsy values are undefined, null, false, the two zeros and the empty
  string.
\<close>

fun truthy :: "json option \<Rightarrow> bool" where
  "truthy None = False"
| "truthy (Some JNull) = False"
| "truthy (Some (JBool b)) = b"
| "truthy (Some (JNum n)) = (\<not> is_zero n)"
| "truthy (Some (JStr s)) = (s \<noteq> [])"
| "truthy (Some (JArr xs)) = True"
| "truthy (Some (JObj kvs)) = True"

fun is_string :: "json option \<Rightarrow> bool" where
  "is_string (Some (JStr s)) = True"
| "is_string _ = False"

fun is_number :: "json option \<Rightarrow> bool" where
  "is_number (Some (JNum n)) = True"
| "is_number _ = False"

text \<open>
  The relational operators \<open><\<close> and \<open>>=\<close> on these numbers; the two zeros compare
  equal.
\<close>

fun js_less :: "number \<Rightarrow> number \<Rightarrow> bool" where
  "js_less PosInfinity _ = False"
| "js_less _ NegInfinity = False"
| "js_less NegInfinity _ = True"
| "js_less _ PosInfinity = True"
| "js_less a b = (finite_value a < finite_value b)"

definition js_ge :: "number \<Rightarrow> number \<Rightarrow> bool" where
  "js_ge a b = (\<not> js_less a b)"

text \<open>\<open>String.prototype.includes\<close>.\<close>

fun str_includes :: "string \<Rightarrow> string \<Rightarrow> bool" where
  "str_includes [] sub = (sub = [])"
| "str_includes (c # s) sub = (prefix sub (c # s) \<or> str_includes s sub)"

text \<open>
  \<open>String.prototype.trim\<close>: of the 8-bit characters, the white space and line
  terminators are TAB, LF, VT, FF, CR, SPACE and NBSP.
\<close>

definition is_space :: "char \<Rightarrow> bool" where
  "is_space c = (of_char c \<in> {9, 10, 11, 12, 13, 32, 160 :: nat})"

definition trim :: "string \<Rightarrow> string" where
  "trim s = rev (dropWhile is_space (rev (dropWhile is_space s)))"

fun join :: "string \<Rightarrow> string list \<Rightarrow> string" where
  "join sep [] = []"
| "join sep [x] = x"
| "join sep (x # y # ys) = x @ sep @ join sep (y # ys)"

text \<open>The results of the calls of a \<open>map\<close>, in order, up to the first that throws.\<close>

fun sequence :: "(js_error + 'a) list \<Rightarrow> js_error + 'a list" where
  "sequence [] = Inr []"
| "sequence (x # xs) =
     (case x of
        Inl e \<Rightarrow> Inl e
      | Inr v \<Rightarrow> (case sequence xs of Inl e \<Rightarrow> Inl e | Inr vs \<Rightarrow> Inr (v # vs)))"

definition cannot_convert :: js_error where
  "cannot_convert = TypeError ''Cannot convert object to primitive value''"

text \<open>
  \<open>String(v)\<close>. The decimal rendering of a number (\<open>Number.prototype.toString\<close>)
  is the parameter \<open>num2str\<close>. An array renders as its elements joined by commas,
  each converted in turn, a \<open>null\<close> element as the empty string. An object of a JSON
  text renders as \<open>[object Object]\<close> by the inherited \<open>toString\<close>, unless it has a
  property of its own named \<open>toString\<close>: that property is no function, so the
  conversion goes on to \<open>valueOf\<close>, which gives no primitive value (the inherited one
  returns the object, one of its own is no function either), and \<open>String\<close> throws a
  \<open>TypeError\<close>.
\<close>

fun js_String :: "(number \<Rightarrow> string) \<Rightarrow> json \<Rightarrow> js_error + string" where
  "js_String num2str JNull = Inr ''null''"
| "js_String num2str (JBool b) = Inr (if b then ''true'' else ''false'')"
| "js_String num2str (JNum n) = Inr (num2str n)"
| "js_String num2str (JStr s) = Inr s"
| "js_String num2str (JArr xs) =
     (case sequence (map (\<lambda>x. if x = JNull then Inr [] else js_String num2str x) xs) of
        Inl e \<Rightarrow> Inl e
      | Inr strs \<Rightarrow> Inr (join '','' strs))"
| "js_String num2str (JObj kvs) =
     (if map_of kvs ''toString'' = None then Inr ''[object Object]'' else Inl cannot_convert)"

section \<open>The response validator of \<open>generateQuestionsWithGemini\<close> (lib/gemini.ts)\<close>

record QuestionData =
  question :: string
  options :: "string list"
  correct :: number
  explanation :: json
  subject :: json

text \<open>
  \<open>generatedText.match(/\[[\s\S]*\]/)\<close>: the match starts at the first \<open>[\<close> and,
  the star being greedy, ends at the last \<open>]\<close> after it; there is no match when no
  \<open>]\<close> follows the first \<open>[\<close>.
\<close>

definition jsonMatch :: "string \<Rightarrow> string option" where
  "jsonMatch generatedText =
     (let rest = dropWhile (\<lambda>c. c \<noteq> CHR ''['') generatedText in
      if rest = [] then None
      else if CHR '']'' \<in> set (tl rest)
        then Some (rev (dropWhile (\<lambda>c. c \<noteq> CHR '']'') (rev rest)))
        else None)"

text \<open>\<open>v || ''\<close> of an optional field.\<close>

definition or_empty :: "json option \<Rightarrow> json" where
  "or_empty v = (if truthy v then the v else JStr [])"

text \<open>The three checks of the loop body, in the order of the source.\<close>

definition question_invalid :: "json \<Rightarrow> bool" where
  "question_invalid q = (\<not> truthy (get_prop q ''question'') \<or> \<not> is_string (get_prop q ''question''))"

definition options_invalid :: "json \<Rightarrow> bool" where
  "options_invalid q =
     (case get_prop q ''options'' of
        Some (JArr opts) \<Rightarrow> length opts \<noteq> 4
      | _ \<Rightarrow> True)"

definition correct_invalid :: "json \<Rightarrow> bool" where
  "correct_invalid q =
     (case get_prop q ''correct'' of
        Some (JNum n) \<Rightarrow> js_less n (Finite 0) \<or> js_ge n (Finite 4)
      | _ \<Rightarrow> True)"

text \<open>
  \<open>q.options.map(opt => typeof opt === 'string' ? opt : String(opt))\<close>: the options as
  strings, or the error of the first option that \<open>String\<close> cannot convert.
\<close>

definition validOptions :: "(number \<Rightarrow> string) \<Rightarrow> json list \<Rightarrow> js_error + string list" where
  "validOptions num2str opts =
     sequence (map (\<lambda>opt. case opt of JStr s \<Rightarrow> Inr s | _ \<Rightarrow> js_String num2str opt) opts)"

text \<open>
  What an element that passed the three checks gives: the record that is pushed, or the
  error thrown while its options are converted.
\<close>

definition validated :: "(number \<Rightarrow> string) \<Rightarrow> json \<Rightarrow> js_error + QuestionData" where
  "validated num2str q =
     (case validOptions num2str
             (case get_prop q ''options'' of Some (JArr opts) \<Rightarrow> opts | _ \<Rightarrow> []) of
        Inl e \<Rightarrow> Inl e
      | Inr strs \<Rightarrow>
          Inr \<lparr> question =
                  (case get_prop q ''question'' of Some (JStr s) \<Rightarrow> trim s | _ \<Rightarrow> []),
                options = strs,
                correct = (case get_prop q ''correct'' of Some (JNum n) \<Rightarrow> n | _ \<Rightarrow> Finite 0),
                explanation = or_empty (get_prop q ''explanation''),
                subject = or_empty (get_prop q ''subject'') \<rparr>)"

text \<open>
  The loop over \<open>questions\<close>, with \<open>validatedQuestions\<close> as the accumulator. An
  element that fails a check is skipped (\<open>continue\<close>); an element that is \<open>null\<close>
  throws at \<open>q.question\<close>, and an element that passed the checks throws when one of
  its options cannot be converted: either ends the loop and the call.
\<close>

fun validate_loop ::
  "(number \<Rightarrow> string) \<Rightarrow> json list \<Rightarrow> QuestionData list \<Rightarrow> js_error + QuestionData list" where
  "validate_loop num2str [] validatedQuestions = Inr validatedQuestions"
| "validate_loop num2str (q # qs) validatedQuestions =
     (if q = JNull
        then Inl (TypeError ''Cannot read properties of null (reading 'question')'')
      else if question_invalid q then validate_loop num2str qs validatedQuestions
      else if options_invalid q then validate_loop num2str qs validatedQuestions
      else if correct_invalid q then validate_loop num2str qs validatedQuestions
      else (case validated num2str q of
              Inl e \<Rightarrow> Inl e
            | Inr r \<Rightarrow> validate_loop num2str qs (validatedQuestions @ [r])))"

text \<open>
  Lines 152 to 210: from the generated text to the validated questions. \<open>JSON.parse\<close>
  is the parameter \<open>JSON_parse\<close>, \<open>None\<close> where it throws a syntax error.
\<close>

definition parse_failed :: js_error where
  "parse_failed = Error
     ''Failed to parse questions from Gemini response. The AI response was not in the expected format.''"

definition not_an_array :: js_error where
  "not_an_array = Error ''Generated response is not an array of questions''"

definition no_valid_questions :: js_error where
  "no_valid_questions = Error ''No valid questions could be generated from the AI response''"

definition jsonText :: "string \<Rightarrow> string" where
  "jsonText generatedText =
     (case jsonMatch generatedText of Some m \<Rightarrow> m | None \<Rightarrow> generatedText)"

definition validate_text ::
  "(string \<Rightarrow> json option) \<Rightarrow> (number \<Rightarrow> string) \<Rightarrow> string \<Rightarrow> js_error + QuestionData list" where
  "validate_text JSON_parse num2str generatedText =
     (case JSON_parse (jsonText generatedText) of
        None \<Rightarrow> Inl parse_failed
      | Some (JArr questions) \<Rightarrow>
          (case validate_loop num2str questions [] of
             Inl e \<Rightarrow> Inl e
           | Inr validatedQuestions \<Rightarrow>
               if length validatedQuestions = 0 then Inl no_valid_questions
               else Inr validatedQuestions)
      | Some _ \<Rightarrow> Inl not_an_array)"

section \<open>The AI client: \<open>generateQuestionsWithGemini\<close> (lib/gemini.ts)\<close>

text \<open>\<open>String(n)\<close> of a status code, a non-negative integer.\<close>

fun decimal :: "nat \<Rightarrow> string" where
  "decimal n =
     (if n < 10 then [char_of (48 + n)]
      else decimal (n div 10) @ [char_of (48 + n mod 10)])"

text \<open>
  What \<open>fetch\<close> gives back: it rejects with an error (no connection), or resolves to
  a response with a status, a status text and a body. \<open>response.json()\<close> rejects
  with an error or yields the envelope; of the envelope the function reads
  \<open>candidates\<close> (absent, or the list of the candidates, each the texts of its
  \<open>content.parts\<close>).
\<close>

record GeminiResponse =
  candidates :: "string list list option"

record HttpResponse =
  status :: nat
  statusText :: string
  json_body :: "js_error + GeminiResponse"

datatype fetch_result = Rejected js_error | Resolved HttpResponse

definition ok :: "HttpResponse \<Rightarrow> bool" where
  "ok response = (200 \<le> status response \<and> status response \<le> 299)"

definition key_not_set :: js_error where
  "key_not_set = Error ''GEMINI_API_KEY environment variable is not set''"

definition invalid_key :: js_error where
  "invalid_key = Error ''Invalid Gemini API key''"

definition quota_exceeded :: js_error where
  "quota_exceeded = Error ''API quota exceeded. Please try again later.''"

definition service_unavailable :: js_error where
  "service_unavailable = Error ''Gemini API service unavailable. Please try again later.''"

definition api_error :: "HttpResponse \<Rightarrow> js_error" where
  "api_error response =
     Error (''Gemini API error: '' @ decimal (status response) @ '' '' @ statusText response)"

definition no_response :: js_error where
  "no_response = Error ''No response generated from Gemini API''"

text \<open>Lines 128 to 141: the error thrown for a response that is not ok.\<close>

definition response_error :: "HttpResponse \<Rightarrow> js_error" where
  "response_error response =
     (if status response = 401 then invalid_key
      else if status response = 429 then quota_exceeded
      else if status response \<ge> 500 then service_unavailable
      else api_error response)"

text \<open>
  The function. \<open>has_key\<close> says whether \<open>GEMINI_API_KEY\<close> is set; \<open>fetched\<close> is
  the outcome of the one request it sends (the prompt and the count only shape that
  request). The outer \<open>catch\<close> rethrows every \<open>Error\<close> as it is.
\<close>

definition generateQuestionsWithGemini ::
  "(string \<Rightarrow> json option) \<Rightarrow> (number \<Rightarrow> string) \<Rightarrow> bool \<Rightarrow> fetch_result
     \<Rightarrow> js_error + QuestionData list" where
  "generateQuestionsWithGemini JSON_parse num2str has_key fetched =
     (if \<not> has_key then Inl key_not_set
      else case fetched of
        Rejected e \<Rightarrow> Inl e
      | Resolved response \<Rightarrow>
          if \<not> ok response then Inl (response_error response)
          else (case json_body response of
                  Inl e \<Rightarrow> Inl e
                | Inr data \<Rightarrow>
                    (case candidates data of
                       None \<Rightarrow> Inl no_response
                     | Some [] \<Rightarrow> Inl no_response
                     | Some ([] # _) \<Rightarrow>
                         Inl (TypeError ''Cannot read properties of undefined (reading 'text')'')
                     | Some ((generatedText # _) # _) \<Rightarrow>
                         validate_text JSON_parse num2str generatedText)))"

section \<open>The store\<close>

text \<open>
  The collections of the database the handlers use. An identifier is the hexadecimal
  text of an ObjectId. A document of a step collection is imported from outside; the
  handler reads the fields below of it, each of which may be absent.
\<close>

type_synonym oid = string

record StepDoc =
  sd_id :: oid
  questionText :: "string option"
  optionA :: "string option"
  optionB :: "string option"
  optionC :: "string option"
  optionD :: "string option"
  optionE :: "string option"
  correctAnswer :: "number option"
  sd_explanation :: "string option"
  sd_subject :: "string option"
  sd_difficulty :: "string option"
  questionNumber :: "nat option"

text \<open>A document of the \<open>questions\<close> collection, as both handlers insert it.\<close>

record QuestionDoc =
  q_id :: oid
  q_question :: json
  q_options :: string
  q_correct :: number
  q_explanation :: json
  q_subject :: json
  q_difficulty :: json
  q_createdAt :: nat
  q_type :: string

text \<open>The result of arithmetic on numbers: a number, or NaN.\<close>

datatype computed = Num number | NaN

record ScoreDoc =
  s_id :: oid
  s_score :: number
  s_total :: number
  s_percentage :: "json + computed"
  s_duration :: "json option"
  s_step :: json
  s_createdAt :: nat

record database =
  step1 :: "StepDoc list"
  step2 :: "StepDoc list"
  step3 :: "StepDoc list"
  questions :: "QuestionDoc list"
  scores :: "ScoreDoc list"

text \<open>\<open>db.collection(name)\<close> for a step listing: a collection that does not exist is empty.\<close>

definition step_collection :: "database \<Rightarrow> string \<Rightarrow> StepDoc list" where
  "step_collection db name =
     (if name = ''step1'' then step1 db
      else if name = ''step2'' then step2 db
      else if name = ''step3'' then step3 db
      else [])"

text \<open>
  \<open>find({}).sort({questionNumber: 1}).limit(k).toArray()\<close>: ascending by
  \<open>questionNumber\<close>, documents without one first, ties in stored order; a limit of 0
  is no limit.
\<close>

definition number_key :: "StepDoc \<Rightarrow> nat" where
  "number_key d = (case questionNumber d of None \<Rightarrow> 0 | Some n \<Rightarrow> Suc n)"

definition find_sorted :: "StepDoc list \<Rightarrow> nat \<Rightarrow> StepDoc list" where
  "find_sorted docs k =
     (let sorted_docs = sort_key number_key docs in
      if k = 0 then sorted_docs else take k sorted_docs)"

section \<open>The questions endpoint (pages/api/questions.ts)\<close>

subsection \<open>\<open>handleGet\<close>\<close>

text \<open>\<open>s || d\<close> for an optional string field.\<close>

definition str_or :: "string option \<Rightarrow> string \<Rightarrow> string" where
  "str_or s d = (case s of None \<Rightarrow> d | Some x \<Rightarrow> if x = [] then d else x)"

record ListedQuestion =
  l_id :: oid
  l_question :: string
  l_options :: string
  l_correct :: number
  l_explanation :: string
  l_subject :: string
  l_difficulty :: string
  l_questionNumber :: "nat option"
  l_step :: string

text \<open>
  The object a step document is mapped to; \<open>JSON.stringify\<close> is the parameter
  \<open>JSON_stringify\<close>.
\<close>

definition transform :: "(json \<Rightarrow> string) \<Rightarrow> string \<Rightarrow> StepDoc \<Rightarrow> ListedQuestion" where
  "transform JSON_stringify step q =
     \<lparr> l_id = sd_id q,
       l_question = str_or (questionText q) [],
       l_options = JSON_stringify (JArr (map JStr
          (filter (\<lambda>opt. length opt > 0)
             [str_or (optionA q) [], str_or (optionB q) [], str_or (optionC q) [],
              str_or (optionD q) [], str_or (optionE q) []]))),
       l_correct = (case correctAnswer q of None \<Rightarrow> Finite 0 | Some n \<Rightarrow> n),
       l_explanation = str_or (sd_explanation q) [],
       l_subject = str_or (sd_subject q) (''Step '' @ step),
       l_difficulty = str_or (sd_difficulty q) ''Medium'',
       l_questionNumber = questionNumber q,
       l_step = step \<rparr>"

record Stats =
  st_step1 :: nat
  st_step2 :: nat
  st_step3 :: nat
  st_aiGenerated :: nat
  st_stepTotal :: nat
  st_total :: nat

datatype get_reply = StatsReply Stats | ScoresReply "ScoreDoc list" | QuestionsReply "ListedQuestion list"

text \<open>The scores, most recent first; a limit of 0 is no limit.\<close>

definition recent_scores :: "ScoreDoc list \<Rightarrow> nat \<Rightarrow> ScoreDoc list" where
  "recent_scores docs k =
     (let sorted_docs = sort_key (\<lambda>d. - int (s_createdAt d)) docs in
      if k = 0 then sorted_docs else take k sorted_docs)"

text \<open>The mixed mode: the three step collections in turn, each with a third of the limit.\<close>

definition allQuestions :: "(json \<Rightarrow> string) \<Rightarrow> database \<Rightarrow> nat option \<Rightarrow> ListedQuestion list" where
  "allQuestions JSON_stringify db limit =
     concat (map (\<lambda>collection.
        map (transform JSON_stringify [last collection])
          (find_sorted (step_collection db collection)
             (case limit of None \<Rightarrow> 20 | Some n \<Rightarrow> (n + 2) div 3)))
        [''step1'', ''step2'', ''step3''])"

text \<open>
  The query holds \<open>type\<close>, \<open>limit\<close> (absent, or the decimal text of a natural number,
  which is a non-empty string and so truthy also when it reads 0), \<open>recent\<close> (read and
  never used) and \<open>step\<close>. The order \<open>sort\<close> leaves with its random comparator is
  the parameter \<open>shuffle\<close>. Every reply has status 200.
\<close>

definition handleGet ::
  "(json \<Rightarrow> string) \<Rightarrow> (ListedQuestion list \<Rightarrow> ListedQuestion list) \<Rightarrow> database
     \<Rightarrow> string option \<Rightarrow> nat option \<Rightarrow> string option \<Rightarrow> get_reply" where
  "handleGet JSON_stringify shuffle db type_param limit step =
     (if type_param = Some ''stats'' then
        (let stepTotal = length (step1 db) + length (step2 db) + length (step3 db) in
         StatsReply \<lparr> st_step1 = length (step1 db), st_step2 = length (step2 db),
           st_step3 = length (step3 db), st_aiGenerated = length (questions db),
           st_stepTotal = stepTotal, st_total = stepTotal + length (questions db) \<rparr>)
      else if type_param = Some ''scores'' then
        ScoresReply (recent_scores (scores db) (case limit of None \<Rightarrow> 10 | Some n \<Rightarrow> n))
      else if str_or step [] \<noteq> [] then
        QuestionsReply (map (transform JSON_stringify (the step))
          (find_sorted (step_collection db (''step'' @ the step))
             (case limit of None \<Rightarrow> 0 | Some n \<Rightarrow> n)))
      else
        (let shuffled = shuffle (allQuestions JSON_stringify db limit) in
         QuestionsReply (case limit of None \<Rightarrow> shuffled | Some n \<Rightarrow> take n shuffled)))"

subsection \<open>\<open>handlePost\<close>\<close>

text \<open>
  \<open>a / b\<close> on doubles (IEEE 754): zero by zero and infinity by infinity are NaN; an
  infinity divided, or a division by a zero, gives an infinity; a zero divided, or a
  division by an infinity, gives a zero; the sign of each is negative when the signs of
  the operands differ. The quotient of two finite numbers other than zero is the exact
  quotient rounded to the nearest double.
\<close>

definition js_divide :: "number \<Rightarrow> number \<Rightarrow> computed" where
  "js_divide a b =
     (if (is_zero a \<and> is_zero b) \<or> (is_infinite a \<and> is_infinite b) then NaN
      else if is_infinite a \<or> is_zero b
        then Num (signed_infinity (is_negative a \<noteq> is_negative b))
      else if is_zero a \<or> is_infinite b
        then Num (signed_zero (is_negative a \<noteq> is_negative b))
      else Num (round_double (finite_value a / finite_value b)))"

text \<open>
  \<open>x * 100\<close>: NaN stays NaN, an infinity and a zero stay what they are, and a finite
  number gives the exact product rounded to the nearest double.
\<close>

fun times_100 :: "computed \<Rightarrow> computed" where
  "times_100 NaN = NaN"
| "times_100 (Num a) =
     (if is_infinite a \<or> is_zero a then Num a
      else Num (round_double (finite_value a * 100)))"

text \<open>A reply: the status and, for a created document, the document.\<close>

datatype created = NoDoc | Question QuestionDoc | Score ScoreDoc

type_synonym post_reply = "nat \<times> created"

text \<open>The options of a question body: the array itself, or the array its text parses to.\<close>

definition parsedOptions :: "(string \<Rightarrow> json option) \<Rightarrow> json \<Rightarrow> json list option" where
  "parsedOptions JSON_parse opts =
     (case (case opts of JStr s \<Rightarrow> JSON_parse s | v \<Rightarrow> Some v) of
        Some (JArr xs) \<Rightarrow> if length xs < 2 then None else Some xs
      | _ \<Rightarrow> None)"

text \<open>
  \<open>new_id\<close> is the identifier the driver gives the inserted document and \<open>now\<close>
  the time of the call. A body that is \<open>null\<close> throws at \<open>body.type\<close>.
\<close>

definition handlePost ::
  "(string \<Rightarrow> json option) \<Rightarrow> (json \<Rightarrow> string) \<Rightarrow> oid \<Rightarrow> nat \<Rightarrow> database \<Rightarrow> json
     \<Rightarrow> js_error + post_reply \<times> database" where
  "handlePost JSON_parse JSON_stringify new_id now db body =
     (if body = JNull then Inl (TypeError ''Cannot read properties of null (reading 'type')'')
      else if get_prop body ''type'' = Some (JStr ''score'') then
        (case (get_prop body ''score'', get_prop body ''total'') of
           (Some (JNum score_n), Some (JNum total_n)) \<Rightarrow>
             (let doc = \<lparr> s_id = new_id, s_score = score_n, s_total = total_n,
                    s_percentage =
                      (if truthy (get_prop body ''percentage'')
                       then Inl (the (get_prop body ''percentage''))
                       else Inr (times_100 (js_divide score_n total_n))),
                    s_duration = get_prop body ''duration'',
                    s_step = (if truthy (get_prop body ''step'')
                              then the (get_prop body ''step'') else JStr ''mixed''),
                    s_createdAt = now \<rparr>
              in Inr ((201, Score doc), db\<lparr>scores := scores db @ [doc]\<rparr>))
         | _ \<Rightarrow> Inr ((400, NoDoc), db))
      else if \<not> truthy (get_prop body ''question'') \<or> \<not> truthy (get_prop body ''options'')
              \<or> \<not> is_number (get_prop body ''correct'')
        then Inr ((400, NoDoc), db)
      else (case parsedOptions JSON_parse (the (get_prop body ''options'')) of
              None \<Rightarrow> Inr ((400, NoDoc), db)
            | Some opts \<Rightarrow>
                (case get_prop body ''correct'' of
                   Some (JNum c) \<Rightarrow>
                     if js_less c (Finite 0) \<or> js_ge c (Finite (of_nat (length opts)))
                       then Inr ((400, NoDoc), db)
                     else
                       (let doc = \<lparr> q_id = new_id,
                              q_question = the (get_prop body ''question''),
                              q_options = (case the (get_prop body ''options'') of
                                             JStr s \<Rightarrow> s | v \<Rightarrow> JSON_stringify v),
                              q_correct = c,
                              q_explanation = or_empty (get_prop body ''explanation''),
                              q_subject = or_empty (get_prop body ''subject''),
                              q_difficulty = (if truthy (get_prop body ''difficulty'')
                                              then the (get_prop body ''difficulty'')
                                              else JStr ''Medium''),
                              q_createdAt = now,
                              q_type = ''ai-generated'' \<rparr>
                        in Inr ((201, Question doc), db\<lparr>questions := questions db @ [doc]\<rparr>))
                 | _ \<Rightarrow> Inr ((400, NoDoc), db))))"

subsection \<open>\<open>handleDelete\<close>\<close>

text \<open>
  \<open>new ObjectId(id)\<close> is the parameter \<open>ObjectId\<close>: the identifier, or the error
  the driver throws for a value it does not accept. \<open>deleteMany\<close> removes the
  documents of \<open>questions\<close> whose identifier is among the given ones, and counts them.
\<close>

fun map_ObjectId :: "(json \<Rightarrow> js_error + oid) \<Rightarrow> json list \<Rightarrow> js_error + oid list" where
  "map_ObjectId ObjectId [] = Inr []"
| "map_ObjectId ObjectId (v # ids) =
     (case ObjectId v of
        Inl e \<Rightarrow> Inl e
      | Inr x \<Rightarrow> (case map_ObjectId ObjectId ids of Inl e \<Rightarrow> Inl e | Inr xs \<Rightarrow> Inr (x # xs)))"

definition deleteMany :: "database \<Rightarrow> oid list \<Rightarrow> nat \<times> database" where
  "deleteMany db objectIds =
     (length (filter (\<lambda>d. q_id d \<in> set objectIds) (questions db)),
      db\<lparr>questions := filter (\<lambda>d. q_id d \<notin> set objectIds) (questions db)\<rparr>)"

text \<open>The reply is the status and, on success, the count.\<close>

definition handleDelete ::
  "(json \<Rightarrow> js_error + oid) \<Rightarrow> database \<Rightarrow> json \<Rightarrow> js_error + (nat \<times> nat option) \<times> database" where
  "handleDelete ObjectId db body =
     (if body = JNull then Inl (TypeError ''Cannot destructure property 'ids' of 'req.body' as it is null.'')
      else case get_prop body ''ids'' of
        Some (JArr ids) \<Rightarrow>
          if length ids = 0 then Inr ((400, None), db)
          else (case map_ObjectId ObjectId ids of
                  Inl e \<Rightarrow> Inl e
                | Inr objectIds \<Rightarrow>
                    (let (deletedCount, db') = deleteMany db objectIds
                     in Inr ((200, Some deletedCount), db')))
      | _ \<Rightarrow> Inr ((400, None), db))"

subsection \<open>\<open>handler\<close>: an error a method handler throws is answered with 500\<close>

definition post_handler ::
  "(string \<Rightarrow> json option) \<Rightarrow> (json \<Rightarrow> string) \<Rightarrow> oid \<Rightarrow> nat \<Rightarrow> database \<Rightarrow> json
     \<Rightarrow> post_reply \<times> database" where
  "post_handler JSON_parse JSON_stringify new_id now db body =
     (case handlePost JSON_parse JSON_stringify new_id now db body of
        Inl e \<Rightarrow> ((500, NoDoc), db)
      | Inr r \<Rightarrow> r)"

definition delete_handler ::
  "(json \<Rightarrow> js_error + oid) \<Rightarrow> database \<Rightarrow> json \<Rightarrow> (nat \<times> nat option) \<times> database" where
  "delete_handler ObjectId db body =
     (case handleDelete ObjectId db body of
        Inl e \<Rightarrow> ((500, None), db)
      | Inr r \<Rightarrow> r)"

section \<open>The generation endpoint (pages/api/generate.ts)\<close>

text \<open>The \<open>catch\<close> block: the status is chosen by what the message of the error includes.\<close>

definition error_status :: "js_error \<Rightarrow> nat" where
  "error_status e =
     (if str_includes (message e) ''API key'' then 401
      else if str_includes (message e) ''quota'' \<or> str_includes (message e) ''limit'' then 429
      else if str_includes (message e) ''network'' \<or> str_includes (message e) ''fetch'' then 503
      else 500)"

text \<open>
  The loop that saves the generated questions. \<open>insertedId i\<close> is the identifier the
  driver gives the \<open>i\<close>-th insert, \<open>None\<close> where that insert throws: the question is
  then left out and the loop goes on.
\<close>

fun save_questions ::
  "(json \<Rightarrow> string) \<Rightarrow> json \<Rightarrow> nat \<Rightarrow> (nat \<Rightarrow> oid option) \<Rightarrow> nat \<Rightarrow> QuestionData list
     \<Rightarrow> QuestionDoc list \<times> database \<Rightarrow> QuestionDoc list \<times> database" where
  "save_questions JSON_stringify difficulty now insertedId i [] (savedQuestions, db) =
     (savedQuestions, db)"
| "save_questions JSON_stringify difficulty now insertedId i (q # qs) (savedQuestions, db) =
     (case insertedId i of
        None \<Rightarrow>
          save_questions JSON_stringify difficulty now insertedId (Suc i) qs (savedQuestions, db)
      | Some new_id \<Rightarrow>
          (let doc = \<lparr> q_id = new_id,
                 q_question = JStr (question q),
                 q_options = JSON_stringify (JArr (map JStr (options q))),
                 q_correct = correct q,
                 q_explanation = or_empty (Some (explanation q)),
                 q_subject = or_empty (Some (subject q)),
                 q_difficulty = difficulty,
                 q_createdAt = now,
                 q_type = ''ai-generated'' \<rparr>
           in save_questions JSON_stringify difficulty now insertedId (Suc i) qs
                (savedQuestions @ [doc], db\<lparr>questions := questions db @ [doc]\<rparr>)))"

text \<open>
  The handler. \<open>connection\<close> is the outcome of \<open>connectToDatabase\<close>: the error it
  throws, or the database. The reply is the status and the saved questions.
\<close>

definition generate_handler ::
  "(string \<Rightarrow> json option) \<Rightarrow> (number \<Rightarrow> string) \<Rightarrow> (json \<Rightarrow> string) \<Rightarrow> bool \<Rightarrow> fetch_result
     \<Rightarrow> js_error + database \<Rightarrow> (nat \<Rightarrow> oid option) \<Rightarrow> nat \<Rightarrow> string \<Rightarrow> json
     \<Rightarrow> nat \<times> QuestionDoc list" where
  "generate_handler JSON_parse num2str JSON_stringify has_key fetched connection insertedId now
       method body =
     (if method \<noteq> ''POST'' then (405, [])
      else if body = JNull then
        (error_status
           (TypeError ''Cannot destructure property 'prompt' of 'req.body' as it is null.''), [])
      else if \<not> truthy (get_prop body ''prompt'') \<or> \<not> is_string (get_prop body ''prompt'')
        then (400, [])
      else if \<not> has_key then (500, [])
      else case generateQuestionsWithGemini JSON_parse num2str has_key fetched of
        Inl e \<Rightarrow> (error_status e, [])
      | Inr generatedQuestions \<Rightarrow>
          if length generatedQuestions = 0 then (500, [])
          else (case connection of
                  Inl e \<Rightarrow> (error_status e, [])
                | Inr db \<Rightarrow>
                    (200, fst (save_questions JSON_stringify
                       (case get_prop body ''difficulty'' of None \<Rightarrow> JStr ''Medium'' | Some d \<Rightarrow> d)
                       now insertedId 0 generatedQuestions ([], db)))))"

section \<open>Reference instances of the runtime's functions\<close>

text \<open>
  The handlers above take \<open>JSON.parse\<close>, \<open>String\<close> of a number and
  \<open>new ObjectId\<close> as parameters, and the general theorems hold for every instance.
  The instances below fix them where an example needs a value.
\<close>

subsection \<open>\<open>JSON.parse\<close> on 8-bit text\<close>

text \<open>
  A recursive-descent parser of the JSON grammar (ECMA-404): white space is space, tab,
  line feed and carriage return; a number is \<open>[-] int [frac] [exp]\<close> with no leading
  zero; a string has no raw control character and the escapes
  \<open>\" \\ \/ \b \f \n \r \t \uXXXX\<close>; a later property of an object replaces an earlier
  one of the same name. A number is read as the double nearest to its decimal value,
  \<open>-0\<close> as the negative zero. A \<open>\uXXXX\<close> escape above
  U+00FF has no 8-bit character and is not accepted here. Nested values are parsed with
  fuel, one unit per value; the length of the text is enough of it.
\<close>

definition is_digit :: "char \<Rightarrow> bool" where
  "is_digit c = (48 \<le> (of_char c :: nat) \<and> (of_char c :: nat) \<le> 57)"

definition digits_value :: "string \<Rightarrow> nat" where
  "digits_value ds = foldl (\<lambda>n c. 10 * n + (of_char c - 48)) 0 ds"

definition json_ws :: "char \<Rightarrow> bool" where
  "json_ws c = (of_char c \<in> {9, 10, 13, 32 :: nat})"

definition skip_ws :: "string \<Rightarrow> string" where
  "skip_ws cs = dropWhile json_ws cs"

definition lex_exp :: "string \<Rightarrow> ((rat \<Rightarrow> rat) \<times> string) option" where
  "lex_exp cs =
     (case cs of
        [] \<Rightarrow> Some (id, [])
      | c # r \<Rightarrow>
          if c = CHR ''e'' \<or> c = CHR ''E'' then
            (let neg = (r \<noteq> [] \<and> hd r = CHR ''-'');
                 r' = (if r \<noteq> [] \<and> (hd r = CHR ''-'' \<or> hd r = CHR ''+'') then tl r else r);
                 es = takeWhile is_digit r'
             in if es = [] then None
                else Some (if neg then (\<lambda>x. x / 10 ^ digits_value es)
                           else (\<lambda>x. x * 10 ^ digits_value es),
                           dropWhile is_digit r'))
          else Some (id, cs))"

definition lex_frac :: "string \<Rightarrow> (rat \<times> string) option" where
  "lex_frac cs =
     (case cs of
        [] \<Rightarrow> Some (0, [])
      | c # r \<Rightarrow>
          if c = CHR ''.'' then
            (let fs = takeWhile is_digit r
             in if fs = [] then None
                else Some (of_nat (digits_value fs) / 10 ^ length fs, dropWhile is_digit r))
          else Some (0, cs))"

definition lex_number :: "string \<Rightarrow> (number \<times> string) option" where
  "lex_number cs =
     (let neg = (cs \<noteq> [] \<and> hd cs = CHR ''-'');
          cs1 = (if neg then tl cs else cs);
          ds = takeWhile is_digit cs1
      in if ds = [] \<or> (length ds > 1 \<and> hd ds = CHR ''0'') then None
         else (case lex_frac (dropWhile is_digit cs1) of
                 None \<Rightarrow> None
               | Some (f, cs2) \<Rightarrow>
                   (case lex_exp cs2 of
                      None \<Rightarrow> None
                    | Some (scale, cs3) \<Rightarrow>
                        (let m = scale (of_nat (digits_value ds) + f)
                         in Some (if m = 0 then signed_zero neg
                                  else round_double (if neg then - m else m), cs3)))))"

definition hex_value :: "char \<Rightarrow> nat option" where
  "hex_value c =
     (let n = (of_char c :: nat) in
      if 48 \<le> n \<and> n \<le> 57 then Some (n - 48)
      else if 65 \<le> n \<and> n \<le> 70 then Some (n - 55)
      else if 97 \<le> n \<and> n \<le> 102 then Some (n - 87)
      else None)"

definition simple_escape :: "char \<Rightarrow> char option" where
  "simple_escape e =
     (if e = CHR 0x22 then Some (CHR 0x22)
      else if e = CHR 0x5C then Some (CHR 0x5C)
      else if e = CHR ''/'' then Some (CHR ''/'')
      else if e = CHR ''b'' then Some (CHR 0x08)
      else if e = CHR ''f'' then Some (CHR 0x0C)
      else if e = CHR ''n'' then Some (CHR 0x0A)
      else if e = CHR ''r'' then Some (CHR 0x0D)
      else if e = CHR ''t'' then Some (CHR 0x09)
      else None)"

definition unicode_escape :: "string \<Rightarrow> char option" where
  "unicode_escape hs =
     (case map hex_value hs of
        [Some a, Some b, Some c, Some d] \<Rightarrow>
          if a = 0 \<and> b = 0 then Some (char_of (16 * c + d)) else None
      | _ \<Rightarrow> None)"

text \<open>The characters of a string after its opening quote, and the text after its closing one.\<close>

fun lex_string :: "string \<Rightarrow> (string \<times> string) option" where
  "lex_string [] = None"
| "lex_string [c] = (if c = CHR 0x22 then Some ([], []) else None)"
| "lex_string (c # e # cs) =
     (if c = CHR 0x22 then Some ([], e # cs)
      else if c = CHR 0x5C then
        (if e = CHR ''u'' then
           (case unicode_escape (take 4 cs) of
              None \<Rightarrow> None
            | Some x \<Rightarrow> map_option (\<lambda>(s, r). (x # s, r)) (lex_string (drop 4 cs)))
         else
           (case simple_escape e of
              None \<Rightarrow> None
            | Some x \<Rightarrow> map_option (\<lambda>(s, r). (x # s, r)) (lex_string cs)))
      else if (of_char c :: nat) < 32 then None
      else map_option (\<lambda>(s, r). (c # s, r)) (lex_string (e # cs)))"

definition set_prop :: "string \<Rightarrow> json \<Rightarrow> (string \<times> json) list \<Rightarrow> (string \<times> json) list" where
  "set_prop k v kvs =
     (if k \<in> fst ` set kvs then map (\<lambda>(k', v'). if k' = k then (k', v) else (k', v')) kvs
      else kvs @ [(k, v)])"

fun parse_value :: "nat \<Rightarrow> string \<Rightarrow> (json \<times> string) option"
  and parse_elements :: "nat \<Rightarrow> string \<Rightarrow> json list \<Rightarrow> (json \<times> string) option"
  and parse_members :: "nat \<Rightarrow> string \<Rightarrow> (string \<times> json) list \<Rightarrow> (json \<times> string) option" where
  "parse_value 0 cs = None"
| "parse_value (Suc fuel) cs =
     (case skip_ws cs of
        [] \<Rightarrow> None
      | c # r \<Rightarrow>
          if c = CHR ''['' then
            (case skip_ws r of
               [] \<Rightarrow> None
             | d # r' \<Rightarrow> if d = CHR '']'' then Some (JArr [], r') else parse_elements fuel r [])
          else if c = CHR ''{'' then
            (case skip_ws r of
               [] \<Rightarrow> None
             | d # r' \<Rightarrow> if d = CHR ''}'' then Some (JObj [], r') else parse_members fuel r [])
          else if c = CHR 0x22 then map_option (\<lambda>(s, r'). (JStr s, r')) (lex_string r)
          else if prefix ''true'' (c # r) then Some (JBool True, drop 4 (c # r))
          else if prefix ''false'' (c # r) then Some (JBool False, drop 5 (c # r))
          else if prefix ''null'' (c # r) then Some (JNull, drop 4 (c # r))
          else map_option (\<lambda>(n, r'). (JNum n, r')) (lex_number (c # r)))"
| "parse_elements 0 cs acc = None"
| "parse_elements (Suc fuel) cs acc =
     (case parse_value fuel cs of
        None \<Rightarrow> None
      | Some (v, r) \<Rightarrow>
          (case skip_ws r of
             [] \<Rightarrow> None
           | c # r' \<Rightarrow>
               if c = CHR '','' then parse_elements fuel r' (acc @ [v])
               else if c = CHR '']'' then Some (JArr (acc @ [v]), r')
               else None))"
| "parse_members 0 cs acc = None"
| "parse_members (Suc fuel) cs acc =
     (case skip_ws cs of
        [] \<Rightarrow> None
      | q # r \<Rightarrow>
          if q \<noteq> CHR 0x22 then None
          else (case lex_string r of
                  None \<Rightarrow> None
                | Some (k, r1) \<Rightarrow>
                    (case skip_ws r1 of
                       [] \<Rightarrow> None
                     | c # r2 \<Rightarrow>
                         if c \<noteq> CHR '':'' then None
                         else (case parse_value fuel r2 of
                                 None \<Rightarrow> None
                               | Some (v, r3) \<Rightarrow>
                                   (case skip_ws r3 of
                                      [] \<Rightarrow> None
                                    | d # r4 \<Rightarrow>
                                        if d = CHR '','' then
                                          parse_members fuel r4 (set_prop k v acc)
                                        else if d = CHR ''}'' then
                                          Some (JObj (set_prop k v acc), r4)
                                        else None)))))"

definition json_parse :: "string \<Rightarrow> json option" where
  "json_parse text =
     (case parse_value (Suc (length text)) text of
        None \<Rightarrow> None
      | Some (v, r) \<Rightarrow> if skip_ws r = [] then Some v else None)"

subsection \<open>\<open>String\<close> of a number and \<open>new ObjectId\<close> of a string\<close>

text \<open>
  The decimal text of an integer below \<open>10^21\<close> in size, of the two zeros and of the
  infinities, as \<open>Number.prototype.toString\<close> gives it. The examples render no other
  number; for one, this is not the runtime's text.
\<close>

definition int_toString :: "number \<Rightarrow> string" where
  "int_toString n =
     (case n of
        Finite r \<Rightarrow> (if r < 0 then ''-'' else []) @ decimal (nat \<bar>\<lfloor>r\<rfloor>\<bar>)
      | NegZero \<Rightarrow> ''0''
      | PosInfinity \<Rightarrow> ''Infinity''
      | NegInfinity \<Rightarrow> ''-Infinity'')"

text \<open>
  The driver accepts a string of 24 hexadecimal characters, in either case, and throws
  for every other string; the identifier prints in lower case. The request type declares
  the identifiers as strings; a value of another type is taken as not accepted.
\<close>

definition lower_hex :: "char \<Rightarrow> char" where
  "lower_hex c =
     (if 65 \<le> (of_char c :: nat) \<and> (of_char c :: nat) \<le> 70 then char_of (of_char c + 32 :: nat)
      else c)"

definition objectId :: "json \<Rightarrow> js_error + oid" where
  "objectId v =
     (case v of
        JStr s \<Rightarrow>
          if length s = 24 \<and> list_all (\<lambda>c. hex_value c \<noteq> None) s then Inr (map lower_hex s)
          else Inl (BSONError
            ''input must be a 24 character hex string, 12 byte Uint8Array, or an integer'')
      | _ \<Rightarrow> Inl (BSONError ''Argument passed in does not match the accepted types''))"

subsection \<open>\<open>JSON.stringify\<close>\<close>

text \<open>
  The compact text of a value. In a string the quote, the backslash and the control
  characters are escaped; an infinity is written \<open>null\<close>; a finite number is rendered by
  \<open>int_toString\<close> (see there for the numbers it covers).
\<close>

definition hex_digit :: "nat \<Rightarrow> char" where
  "hex_digit n = (if n < 10 then char_of (48 + n) else char_of (87 + n))"

definition escape_char :: "char \<Rightarrow> string" where
  "escape_char c =
     (if c = CHR 0x22 then [CHR 0x5C, CHR 0x22]
      else if c = CHR 0x5C then [CHR 0x5C, CHR 0x5C]
      else if c = CHR 0x08 then [CHR 0x5C, CHR ''b'']
      else if c = CHR 0x0C then [CHR 0x5C, CHR ''f'']
      else if c = CHR 0x0A then [CHR 0x5C, CHR ''n'']
      else if c = CHR 0x0D then [CHR 0x5C, CHR ''r'']
      else if c = CHR 0x09 then [CHR 0x5C, CHR ''t'']
      else if (of_char c :: nat) < 32 then
        [CHR 0x5C, CHR ''u'', CHR ''0'', CHR ''0'',
         hex_digit (of_char c div 16), hex_digit (of_char c mod 16)]
      else [c])"

definition quote :: "string \<Rightarrow> string" where
  "quote s = [CHR 0x22] @ concat (map escape_char s) @ [CHR 0x22]"

fun json_stringify :: "json \<Rightarrow> string" where
  "json_stringify JNull = ''null''"
| "json_stringify (JBool b) = (if b then ''true'' else ''false'')"
| "json_stringify (JNum n) = (if is_infinite n then ''null'' else int_toString n)"
| "json_stringify (JStr s) = quote s"
| "json_stringify (JArr xs) = ''['' @ join '','' (map json_stringify xs) @ '']''"
| "json_stringify (JObj kvs) =
     ''{'' @ join '','' (map (\<lambda>kv. quote (fst kv) @ '':'' @ json_stringify (snd kv)) kvs) @ ''}''"

section \<open>The per-element checks, in words\<close>

text \<open>A candidate is an object: a structure with optional fields.\<close>

definition is_object :: "json \<Rightarrow> bool" where
  "is_object q = (case q of JObj kvs \<Rightarrow> True | _ \<Rightarrow> False)"

text \<open>A number in \<open>[lo, hi)\<close>: it is finite and its value is from \<open>lo\<close> up to, and not including, \<open>hi\<close>.\<close>

definition number_in :: "number \<Rightarrow> rat \<Rightarrow> rat \<Rightarrow> bool" where
  "number_in n lo hi = (\<not> is_infinite n \<and> lo \<le> finite_value n \<and> finite_value n < hi)"

text \<open>
  What the loop accepts, said without the loop: the question is a string that is not
  empty, the options are an array of exactly four values, and \<open>correct\<close> is a number
  from 0 up to, and not including, 4.
\<close>

definition passes_checks :: "json \<Rightarrow> bool" where
  "passes_checks q =
     ((case get_prop q ''question'' of Some (JStr s) \<Rightarrow> s \<noteq> [] | _ \<Rightarrow> False)
      \<and> (case get_prop q ''options'' of Some (JArr opts) \<Rightarrow> length opts = 4 | _ \<Rightarrow> False)
      \<and> (case get_prop q ''correct'' of Some (JNum n) \<Rightarrow> number_in n 0 4 | _ \<Rightarrow> False))"

text \<open>
  The values \<open>String\<close> converts without throwing: every value but an object with a
  property of its own named \<open>toString\<close>, and but an array that holds such a value.
\<close>

fun convertible :: "json \<Rightarrow> bool" where
  "convertible (JObj kvs) = (map_of kvs ''toString'' = None)"
| "convertible (JArr xs) = list_all convertible xs"
| "convertible _ = True"

definition options_convertible :: "json \<Rightarrow> bool" where
  "options_convertible q =
     (case get_prop q ''options'' of Some (JArr opts) \<Rightarrow> list_all convertible opts | _ \<Rightarrow> True)"

text \<open>
  The three checks as the specification words them: the question is present and a
  string, the options are an array of exactly four values, and \<open>correct\<close> is a number
  in \<open>[0,4)\<close>.
\<close>

definition passes_stated_checks :: "json \<Rightarrow> bool" where
  "passes_stated_checks q =
     ((case get_prop q ''question'' of Some (JStr s) \<Rightarrow> True | _ \<Rightarrow> False)
      \<and> (case get_prop q ''options'' of Some (JArr opts) \<Rightarrow> length opts = 4 | _ \<Rightarrow> False)
      \<and> (case get_prop q ''correct'' of Some (JNum n) \<Rightarrow> number_in n 0 4 | _ \<Rightarrow> False))"

section \<open>The request checks of the questions endpoint, in words\<close>

text \<open>
  The array the options of a question body stand for: the array itself, or the array
  its text parses to.
\<close>

definition options_array :: "(string \<Rightarrow> json option) \<Rightarrow> json option \<Rightarrow> json list option" where
  "options_array JSON_parse opts =
     (case opts of
        Some (JArr xs) \<Rightarrow> Some xs
      | Some (JStr s) \<Rightarrow> (case JSON_parse s of Some (JArr xs) \<Rightarrow> Some xs | _ \<Rightarrow> None)
      | _ \<Rightarrow> None)"

text \<open>\<open>correct\<close> is a number and an index into \<open>n\<close> options: from 0 up to, not including, \<open>n\<close>.\<close>

definition index_in_range :: "json option \<Rightarrow> nat \<Rightarrow> bool" where
  "index_in_range c n = (case c of Some (JNum x) \<Rightarrow> number_in x 0 (of_nat n) | _ \<Rightarrow> False)"

text \<open>
  When a question body is refused: the question or the options are missing or falsy,
  the options are not an array of at least 2 items (given as such or as its JSON text),
  or \<open>correct\<close> is not a number in range.
\<close>

definition question_refused :: "(string \<Rightarrow> json option) \<Rightarrow> json \<Rightarrow> bool" where
  "question_refused JSON_parse body =
     (if truthy (get_prop body ''question'') \<and> truthy (get_prop body ''options'') then
        (case options_array JSON_parse (get_prop body ''options'') of
           None \<Rightarrow> True
         | Some xs \<Rightarrow> length xs < 2 \<or> \<not> index_in_range (get_prop body ''correct'') (length xs))
      else True)"

text \<open>
  The document a question body is stored as: its question and index as given, its
  options as JSON text, the optional fields with their defaults.
\<close>

definition stored_question :: "(json \<Rightarrow> string) \<Rightarrow> oid \<Rightarrow> nat \<Rightarrow> json \<Rightarrow> number \<Rightarrow> QuestionDoc" where
  "stored_question JSON_stringify new_id now body c =
     \<lparr> q_id = new_id,
       q_question = the (get_prop body ''question''),
       q_options = (case the (get_prop body ''options'') of
                      JStr s \<Rightarrow> s | v \<Rightarrow> JSON_stringify v),
       q_correct = c,
       q_explanation = or_empty (get_prop body ''explanation''),
       q_subject = or_empty (get_prop body ''subject''),
       q_difficulty = (if truthy (get_prop body ''difficulty'')
                       then the (get_prop body ''difficulty'')
                       else JStr ''Medium''),
       q_createdAt = now,
       q_type = ''ai-generated'' \<rparr>"

text \<open>What the claim states instead: only the options and the index decide.\<close>

definition stated_refused :: "(string \<Rightarrow> json option) \<Rightarrow> json \<Rightarrow> bool" where
  "stated_refused JSON_parse body =
     (case options_array JSON_parse (get_prop body ''options'') of
        None \<Rightarrow> True
      | Some xs \<Rightarrow> length xs < 2 \<or> \<not> index_in_range (get_prop body ''correct'') (length xs))"

text \<open>When a delete body is refused: \<open>ids\<close> is missing, not an array, or empty.\<close>

definition ids_refused :: "json \<Rightarrow> bool" where
  "ids_refused body =
     (case get_prop body ''ids'' of
        Some (JArr ids) \<Rightarrow> ids = []
      | _ \<Rightarrow> True)"

section \<open>The validator: what the loop computes\<close>

lemma question_invalid_iff:
  "question_invalid q \<longleftrightarrow>
     \<not> (case get_prop q ''question'' of Some (JStr s) \<Rightarrow> s \<noteq> [] | _ \<Rightarrow> False)"
  by (auto simp: question_invalid_def split: option.splits json.splits)

lemma options_invalid_iff:
  "options_invalid q \<longleftrightarrow>
     \<not> (case get_prop q ''options'' of Some (JArr opts) \<Rightarrow> length opts = 4 | _ \<Rightarrow> False)"
  by (auto simp: options_invalid_def split: option.splits json.splits)

lemma range_check_number:
  "(js_less c (Finite lo) \<or> js_ge c (Finite hi)) = (\<not> number_in c lo hi)"
  by (cases c) (auto simp: js_ge_def number_in_def)

lemma correct_invalid_iff:
  "correct_invalid q \<longleftrightarrow>
     \<not> (case get_prop q ''correct'' of Some (JNum n) \<Rightarrow> number_in n 0 4 | _ \<Rightarrow> False)"
  by (auto simp: correct_invalid_def range_check_number split: option.splits json.splits)

lemma passes_checks_iff:
  "passes_checks q \<longleftrightarrow> \<not> question_invalid q \<and> \<not> options_invalid q \<and> \<not> correct_invalid q"
  unfolding passes_checks_def question_invalid_iff options_invalid_iff correct_invalid_iff
  by simp

text \<open>A \<open>map\<close> returns when each of its calls does, and then returns their results.\<close>

lemma sequence_Inr_iff: "sequence xs = Inr vs \<longleftrightarrow> xs = map Inr vs"
proof (induction xs arbitrary: vs)
  case Nil
  show ?case by auto
next
  case (Cons x xs)
  show ?case
  proof (cases x)
    case (Inl e)
    then show ?thesis by (cases vs) auto
  next
    case (Inr v)
    show ?thesis
    proof (cases "sequence xs")
      case (Inl e)
      with Inr Cons.IH show ?thesis by (cases vs) auto
    next
      case tail: (Inr ws)
      from Cons.IH [of ws] tail have "xs = map Inr ws" by blast
      with Inr tail show ?thesis by (cases vs) auto
    qed
  qed
qed

text \<open>\<open>String\<close> throws for no value but the ones that are not convertible.\<close>

lemma js_String_convertible: "convertible v \<Longrightarrow> \<exists>s. js_String n v = Inr s"
proof (induction n v rule: js_String.induct)
  case (5 num2str xs)
  have "\<exists>strs. map (\<lambda>x. if x = JNull then Inr [] else js_String num2str x) xs = map Inr strs"
    using "5.IH" "5.prems"
  proof (induction xs)
    case Nil
    show ?case by simp
  next
    case (Cons x xs)
    then have "convertible (JArr xs)" by simp
    with Cons obtain strs where
      t: "map (\<lambda>x. if x = JNull then Inr [] else js_String num2str x) xs = map Inr strs"
      by auto
    from Cons.prems obtain s where "(if x = JNull then Inr [] else js_String num2str x) = Inr s"
      by (cases "x = JNull") auto
    with t have
      "map (\<lambda>x. if x = JNull then Inr [] else js_String num2str x) (x # xs) = map Inr (s # strs)"
      by simp
    then show ?case by blast
  qed
  then obtain strs where
    "sequence (map (\<lambda>x. if x = JNull then Inr [] else js_String num2str x) xs) = Inr strs"
    by (auto simp: sequence_Inr_iff)
  then show ?case by simp
qed auto

lemma validOptions_convertible:
  "list_all convertible opts \<Longrightarrow> \<exists>strs. validOptions n opts = Inr strs"
proof (induction opts)
  case Nil
  show ?case by (simp add: validOptions_def)
next
  case (Cons opt opts)
  then obtain strs where "validOptions n opts = Inr strs" by auto
  moreover from Cons.prems obtain s where
    "(case opt of JStr s \<Rightarrow> Inr s | _ \<Rightarrow> js_String n opt) = Inr s"
    using js_String_convertible [of opt n] by (cases opt) auto
  ultimately show ?case by (simp add: validOptions_def)
qed

lemma validated_convertible:
  "options_convertible q \<Longrightarrow> \<exists>r. validated n q = Inr r"
proof -
  assume "options_convertible q"
  then have "list_all convertible
      (case get_prop q ''options'' of Some (JArr opts) \<Rightarrow> opts | _ \<Rightarrow> [])"
    by (auto simp: options_convertible_def split: option.splits json.splits)
  from validOptions_convertible [OF this, of n] show ?thesis
    by (auto simp: validated_def)
qed

lemma all_validated:
  "list_all options_convertible qs \<Longrightarrow> \<exists>new. map Inr new = map (validated n) qs"
proof (induction qs)
  case Nil
  show ?case by simp
next
  case (Cons q qs)
  then obtain new where "map Inr new = map (validated n) qs" by auto
  moreover from Cons.prems obtain r where "validated n q = Inr r"
    using validated_convertible [of q n] by auto
  ultimately have "map Inr (r # new) = map (validated n) (q # qs)" by simp
  then show ?case by blast
qed

text \<open>One turn of the loop, for an element that is not \<open>null\<close>.\<close>

lemma validate_loop_step:
  "q \<noteq> JNull \<Longrightarrow>
     validate_loop n (q # qs) acc =
       (if passes_checks q
        then (case validated n q of
                Inl e \<Rightarrow> Inl e
              | Inr r \<Rightarrow> validate_loop n qs (acc @ [r]))
        else validate_loop n qs acc)"
  by (simp add: passes_checks_iff)

text \<open>
  Where every passing element gives its record, the loop returns those records, in
  order, after what it had.
\<close>

lemma validate_loop_filter:
  "JNull \<notin> set qs \<Longrightarrow> map Inr new = map (validated n) (filter passes_checks qs) \<Longrightarrow>
     validate_loop n qs acc = Inr (acc @ new)"
proof (induction qs arbitrary: acc new)
  case Nil
  then show ?case by simp
next
  case (Cons q qs)
  then have q: "q \<noteq> JNull" and rest: "JNull \<notin> set qs" by auto
  show ?case
  proof (cases "passes_checks q")
    case False
    with Cons.prems(2) Cons.IH [OF rest, of new acc] q show ?thesis
      by (simp add: validate_loop_step del: validate_loop.simps)
  next
    case True
    with Cons.prems(2) obtain r new' where
      new: "new = r # new'" and r: "validated n q = Inr r"
      and tail: "map Inr new' = map (validated n) (filter passes_checks qs)"
      by (cases new) auto
    from Cons.IH [OF rest tail, of "acc @ [r]"] True q r new show ?thesis
      by (simp add: validate_loop_step del: validate_loop.simps)
  qed
qed

text \<open>Where the loop returns, no element is \<open>null\<close> and every passing element gave its record.\<close>

lemma validate_loop_Inr:
  "validate_loop n qs acc = Inr rs \<Longrightarrow>
     JNull \<notin> set qs
     \<and> (\<exists>new. rs = acc @ new \<and> map Inr new = map (validated n) (filter passes_checks qs))"
proof (induction qs arbitrary: acc)
  case Nil
  then show ?case by simp
next
  case (Cons q qs)
  from Cons.prems have q: "q \<noteq> JNull" by (cases "q = JNull") auto
  show ?case
  proof (cases "passes_checks q")
    case False
    with Cons.prems q have "validate_loop n qs acc = Inr rs"
      by (simp add: validate_loop_step del: validate_loop.simps)
    from Cons.IH [OF this] False q show ?thesis by auto
  next
    case True
    with Cons.prems q obtain r where r: "validated n q = Inr r"
      and "validate_loop n qs (acc @ [r]) = Inr rs"
      by (cases "validated n q") (auto simp: validate_loop_step simp del: validate_loop.simps)
    from Cons.IH [OF this(2)] obtain new where
      "JNull \<notin> set qs" "rs = (acc @ [r]) @ new"
      "map Inr new = map (validated n) (filter passes_checks qs)"
      by blast
    with True r q have "JNull \<notin> set (q # qs) \<and> rs = acc @ (r # new)
        \<and> map Inr (r # new) = map (validated n) (filter passes_checks (q # qs))"
      by simp
    then show ?thesis by blast
  qed
qed

text \<open>An element that fails a check leaves no trace, wherever it stands in the array.\<close>

lemma validate_loop_skip:
  assumes "q \<noteq> JNull" and "\<not> passes_checks q"
  shows "validate_loop n (xs @ q # ys) acc = validate_loop n (xs @ ys) acc"
proof (induction xs arbitrary: acc)
  case Nil
  from assms show ?case by (simp add: validate_loop_step del: validate_loop.simps)
next
  case (Cons x xs)
  show ?case
  proof (cases "x = JNull")
    case True
    then show ?thesis by simp
  next
    case False
    then show ?thesis
      using Cons.IH
      by (simp add: validate_loop_step del: validate_loop.simps split: sum.splits)
  qed
qed

lemma is_object_not_null: "list_all is_object qs \<Longrightarrow> JNull \<notin> set qs"
  by (auto simp: list_all_iff is_object_def)

lemma validate_text_array:
  assumes "JSON_parse (jsonText text) = Some (JArr qs)" and "JNull \<notin> set qs"
    and "map Inr new = map (validated n) (filter passes_checks qs)"
  shows "validate_text JSON_parse n text =
           (if new = [] then Inl no_valid_questions else Inr new)"
  using assms validate_loop_filter [OF assms(2,3), of "[]"]
  by (simp add: validate_text_def)

lemma validate_text_Inr:
  assumes "validate_text JSON_parse n text = Inr rs"
  shows "\<exists>qs. JSON_parse (jsonText text) = Some (JArr qs) \<and> JNull \<notin> set qs
            \<and> map Inr rs = map (validated n) (filter passes_checks qs)"
proof -
  from assms obtain qs where p: "JSON_parse (jsonText text) = Some (JArr qs)"
    by (auto simp: validate_text_def split: option.splits json.splits)
  with assms have "validate_loop n qs [] = Inr rs"
    by (auto simp: validate_text_def split: sum.splits if_splits)
  from validate_loop_Inr [OF this] p show ?thesis by auto
qed

lemma validate_text_never_empty: "validate_text JSON_parse n text \<noteq> Inr []"
  by (auto simp: validate_text_def split: option.splits json.splits sum.splits)

lemma or_empty_None: "or_empty None = JStr []"
  by (simp add: or_empty_def)

section \<open>The claims about the validator\<close>

text \<open>
  Claim C1, as amended. For every raw text whose extracted JSON text parses to an array
  of candidate objects of which at least one passes the checks (the question a non-empty
  string, the options an array of length exactly 4, \<open>correct\<close> a number in \<open>[0,4)\<close>),
  and in which every option of a passing element is a value \<open>String\<close> converts, the
  validator returns exactly the normalised records of the elements that pass, one for
  each and in the order of the source array; the elements that fail a check are left
  out and abort nothing.
\<close>

theorem validator_returns_passing_subsequence:
  assumes "JSON_parse (jsonText text) = Some (JArr qs)"
    and "list_all is_object qs"
    and "list_ex passes_checks qs"
    and "list_all options_convertible (filter passes_checks qs)"
  shows "\<exists>rs. validate_text JSON_parse num2str text = Inr rs
            \<and> map Inr rs = map (validated num2str) (filter passes_checks qs)"
proof -
  have n: "JNull \<notin> set qs" using assms(2) by (rule is_object_not_null)
  from all_validated [OF assms(4), of num2str] obtain new where
    new: "map Inr new = map (validated num2str) (filter passes_checks qs)" by blast
  have "filter passes_checks qs \<noteq> []"
    using assms(3) by (auto simp: list_ex_iff filter_empty_conv)
  with new have "new \<noteq> []" by auto
  with validate_text_array [where JSON_parse = JSON_parse and n = num2str, OF assms(1) n new]
    new show ?thesis by auto
qed

text \<open>
  A witness: of three candidates the second has three options only; the first and the
  third are returned, in that order. An option that is an object converts when it has
  no \<open>toString\<close> of its own.
\<close>

theorem validator_returns_passing_subsequence_witness:
  \<open>\<exists>rs. validate_text json_parse int_toString
     ''Sure! [{"question":"Q1","options":["a","b","c","d"],"correct":0}, {"question":"Q2","options":["a","b","c"],"correct":1}, {"question":"Q3","options":["a","b","c",{"d":1}],"correct":3.5,"subject":"Cardiology"}]''
      = Inr rs
    \<and> rs = [\<lparr>question = ''Q1'', options = [''a'', ''b'', ''c'', ''d''], correct = Finite 0,
               explanation = JStr [], subject = JStr []\<rparr>,
             \<lparr>question = ''Q3'', options = [''a'', ''b'', ''c'', ''[object Object]''],
               correct = Finite (7 / 2), explanation = JStr [],
               subject = JStr ''Cardiology''\<rparr>]\<close>
proof -
  have p: \<open>json_parse (jsonText
     ''Sure! [{"question":"Q1","options":["a","b","c","d"],"correct":0}, {"question":"Q2","options":["a","b","c"],"correct":1}, {"question":"Q3","options":["a","b","c",{"d":1}],"correct":3.5,"subject":"Cardiology"}]'')
    = Some (JArr
       [JObj [(''question'', JStr ''Q1''),
              (''options'', JArr [JStr ''a'', JStr ''b'', JStr ''c'', JStr ''d'']),
              (''correct'', JNum (Finite 0))],
        JObj [(''question'', JStr ''Q2''),
              (''options'', JArr [JStr ''a'', JStr ''b'', JStr ''c'']),
              (''correct'', JNum (Finite 1))],
        JObj [(''question'', JStr ''Q3''),
              (''options'', JArr [JStr ''a'', JStr ''b'', JStr ''c'',
                                  JObj [(''d'', JNum (Finite 1))]]),
              (''correct'', JNum (Finite (7 / 2))),
              (''subject'', JStr ''Cardiology'')]])\<close>
    by code_simp
  have m: "map Inr
      [\<lparr>question = ''Q1'', options = [''a'', ''b'', ''c'', ''d''], correct = Finite 0,
               explanation = JStr [], subject = JStr []\<rparr>,
             \<lparr>question = ''Q3'', options = [''a'', ''b'', ''c'', ''[object Object]''],
               correct = Finite (7 / 2), explanation = JStr [],
               subject = JStr ''Cardiology''\<rparr>]
    = map (validated int_toString) (filter passes_checks
       [JObj [(''question'', JStr ''Q1''),
              (''options'', JArr [JStr ''a'', JStr ''b'', JStr ''c'', JStr ''d'']),
              (''correct'', JNum (Finite 0))],
        JObj [(''question'', JStr ''Q2''),
              (''options'', JArr [JStr ''a'', JStr ''b'', JStr ''c'']),
              (''correct'', JNum (Finite 1))],
        JObj [(''question'', JStr ''Q3''),
              (''options'', JArr [JStr ''a'', JStr ''b'', JStr ''c'',
                                  JObj [(''d'', JNum (Finite 1))]]),
              (''correct'', JNum (Finite (7 / 2))),
              (''subject'', JStr ''Cardiology'')]])"
    by code_simp
  have \<open>\<exists>rs. validate_text json_parse int_toString
     ''Sure! [{"question":"Q1","options":["a","b","c","d"],"correct":0}, {"question":"Q2","options":["a","b","c"],"correct":1}, {"question":"Q3","options":["a","b","c",{"d":1}],"correct":3.5,"subject":"Cardiology"}]''
      = Inr rs
    \<and> map Inr rs = map (validated int_toString) (filter passes_checks
       [JObj [(''question'', JStr ''Q1''),
              (''options'', JArr [JStr ''a'', JStr ''b'', JStr ''c'', JStr ''d'']),
              (''correct'', JNum (Finite 0))],
        JObj [(''question'', JStr ''Q2''),
              (''options'', JArr [JStr ''a'', JStr ''b'', JStr ''c'']),
              (''correct'', JNum (Finite 1))],
        JObj [(''question'', JStr ''Q3''),
              (''options'', JArr [JStr ''a'', JStr ''b'', JStr ''c'',
                                  JObj [(''d'', JNum (Finite 1))]]),
              (''correct'', JNum (Finite (7 / 2))),
              (''subject'', JStr ''Cardiology'')]])\<close>
    by (rule validator_returns_passing_subsequence
          [where JSON_parse = json_parse and num2str = int_toString, OF p]; code_simp)
  then obtain rs where
    v: \<open>validate_text json_parse int_toString
     ''Sure! [{"question":"Q1","options":["a","b","c","d"],"correct":0}, {"question":"Q2","options":["a","b","c"],"correct":1}, {"question":"Q3","options":["a","b","c",{"d":1}],"correct":3.5,"subject":"Cardiology"}]''
      = Inr rs\<close>
    and e: "map Inr rs = map (validated int_toString) (filter passes_checks
       [JObj [(''question'', JStr ''Q1''),
              (''options'', JArr [JStr ''a'', JStr ''b'', JStr ''c'', JStr ''d'']),
              (''correct'', JNum (Finite 0))],
        JObj [(''question'', JStr ''Q2''),
              (''options'', JArr [JStr ''a'', JStr ''b'', JStr ''c'']),
              (''correct'', JNum (Finite 1))],
        JObj [(''question'', JStr ''Q3''),
              (''options'', JArr [JStr ''a'', JStr ''b'', JStr ''c'',
                                  JObj [(''d'', JNum (Finite 1))]]),
              (''correct'', JNum (Finite (7 / 2))),
              (''subject'', JStr ''Cardiology'')]])"
    by blast
  have "map Inr rs = (map Inr
      [\<lparr>question = ''Q1'', options = [''a'', ''b'', ''c'', ''d''], correct = Finite 0,
               explanation = JStr [], subject = JStr []\<rparr>,
             \<lparr>question = ''Q3'', options = [''a'', ''b'', ''c'', ''[object Object]''],
               correct = Finite (7 / 2), explanation = JStr [],
               subject = JStr ''Cardiology''\<rparr>] :: (js_error + QuestionData) list)"
    by (rule trans [OF e m [symmetric]])
  then have "rs = [\<lparr>question = ''Q1'', options = [''a'', ''b'', ''c'', ''d''], correct = Finite 0,
               explanation = JStr [], subject = JStr []\<rparr>,
             \<lparr>question = ''Q3'', options = [''a'', ''b'', ''c'', ''[object Object]''],
               correct = Finite (7 / 2), explanation = JStr [],
               subject = JStr ''Cardiology''\<rparr>]"
    by (simp only: inj_map_eq_map [OF inj_Inr])
  with v show ?thesis by blast
qed

text \<open>
  The claim as stated fails, twice. Both elements of the first array below pass the three
  checks as the specification words them (the first question is present and a string,
  the empty one), and the validator returns the second only. No element of the second
  array passes, and the validator does not return the empty sub-sequence: it fails.
\<close>

theorem stated_checks_counterexample:
  \<open>json_parse (jsonText
      ''[{"question":"","options":["a","b","c","d"],"correct":0}, {"question":"Q","options":["a","b","c","d"],"correct":2}]'')
    = Some (JArr
       [JObj [(''question'', JStr []),
              (''options'', JArr [JStr ''a'', JStr ''b'', JStr ''c'', JStr ''d'']),
              (''correct'', JNum (Finite 0))],
        JObj [(''question'', JStr ''Q''),
              (''options'', JArr [JStr ''a'', JStr ''b'', JStr ''c'', JStr ''d'']),
              (''correct'', JNum (Finite 2))]])
   \<and> list_all passes_stated_checks
       [JObj [(''question'', JStr []),
              (''options'', JArr [JStr ''a'', JStr ''b'', JStr ''c'', JStr ''d'']),
              (''correct'', JNum (Finite 0))],
        JObj [(''question'', JStr ''Q''),
              (''options'', JArr [JStr ''a'', JStr ''b'', JStr ''c'', JStr ''d'']),
              (''correct'', JNum (Finite 2))]]
   \<and> validate_text json_parse int_toString
      ''[{"question":"","options":["a","b","c","d"],"correct":0}, {"question":"Q","options":["a","b","c","d"],"correct":2}]''
    = Inr [\<lparr>question = ''Q'', options = [''a'', ''b'', ''c'', ''d''], correct = Finite 2,
             explanation = JStr [], subject = JStr []\<rparr>]
   \<and> json_parse (jsonText ''[{"question":"Q","options":["a","b","c"],"correct":1}]'')
    = Some (JArr
       [JObj [(''question'', JStr ''Q''),
              (''options'', JArr [JStr ''a'', JStr ''b'', JStr ''c'']),
              (''correct'', JNum (Finite 1))]])
   \<and> filter passes_stated_checks
       [JObj [(''question'', JStr ''Q''),
              (''options'', JArr [JStr ''a'', JStr ''b'', JStr ''c'']),
              (''correct'', JNum (Finite 1))]] = []
   \<and> validate_text json_parse int_toString
      ''[{"question":"Q","options":["a","b","c"],"correct":1}]''
    = Inl (Error ''No valid questions could be generated from the AI response'')\<close>
  by code_simp

text \<open>
  What the amended claim leaves out: an element that passes the three checks with an
  option that \<open>String\<close> cannot convert ends the call with a \<open>TypeError\<close>, and the
  record of the valid element before it is lost with it.
\<close>

lemma unconvertible_option_aborts:
  \<open>validate_text json_parse int_toString
      ''[{"question":"Q1","options":["a","b","c","d"],"correct":0}, {"question":"Q2","options":["a","b","c",{"toString":1}],"correct":1}]''
    = Inl (TypeError ''Cannot convert object to primitive value'')\<close>
  by code_simp

text \<open>
  Claim C2. For the raw text
  \<open>garbage [ {"question":"Q","options":["a","b","c","d"],"correct":1} ] trailing\<close>
  the pattern matches the span from the first \<open>[\<close> to the last \<open>]\<close>; with a
  \<open>JSON.parse\<close> that reads that span as the array of the one object, the validator
  returns exactly one record, with \<open>correct\<close> 1 and the four options as strings.
\<close>

theorem bracketed_span_example:
  assumes \<open>JSON_parse ''[ {"question":"Q","options":["a","b","c","d"],"correct":1} ]'' =
     Some (JArr [JObj [(''question'', JStr ''Q''),
                       (''options'', JArr [JStr ''a'', JStr ''b'', JStr ''c'', JStr ''d'']),
                       (''correct'', JNum (Finite 1))]])\<close>
  shows \<open>jsonMatch
           ''garbage [ {"question":"Q","options":["a","b","c","d"],"correct":1} ] trailing''
       = Some ''[ {"question":"Q","options":["a","b","c","d"],"correct":1} ]''
     \<and> validate_text JSON_parse num2str
           ''garbage [ {"question":"Q","options":["a","b","c","d"],"correct":1} ] trailing''
       = Inr [\<lparr>question = ''Q'', options = [''a'', ''b'', ''c'', ''d''], correct = Finite 1,
               explanation = JStr [], subject = JStr []\<rparr>]\<close>
proof -
  have m: \<open>jsonMatch
           ''garbage [ {"question":"Q","options":["a","b","c","d"],"correct":1} ] trailing''
       = Some ''[ {"question":"Q","options":["a","b","c","d"],"correct":1} ]''\<close>
    by code_simp
  then have t: \<open>jsonText
           ''garbage [ {"question":"Q","options":["a","b","c","d"],"correct":1} ] trailing''
       = ''[ {"question":"Q","options":["a","b","c","d"],"correct":1} ]''\<close>
    by (simp only: jsonText_def option.case)
  have v: "validate_loop num2str
       [JObj [(''question'', JStr ''Q''),
              (''options'', JArr [JStr ''a'', JStr ''b'', JStr ''c'', JStr ''d'']),
              (''correct'', JNum (Finite 1))]] []
     = Inr [\<lparr>question = ''Q'', options = [''a'', ''b'', ''c'', ''d''], correct = Finite 1,
               explanation = JStr [], subject = JStr []\<rparr>]"
    by code_simp
  have \<open>validate_text JSON_parse num2str
           ''garbage [ {"question":"Q","options":["a","b","c","d"],"correct":1} ] trailing''
       = Inr [\<lparr>question = ''Q'', options = [''a'', ''b'', ''c'', ''d''], correct = Finite 1,
               explanation = JStr [], subject = JStr []\<rparr>]\<close>
    unfolding validate_text_def t assms by (simp add: v del: validate_loop.simps)
  with m show ?thesis by (rule conjI)
qed

text \<open>A witness: the reference parser reads the span so, and the record comes out.\<close>

theorem bracketed_span_example_witness:
  \<open>json_parse ''[ {"question":"Q","options":["a","b","c","d"],"correct":1} ]'' =
     Some (JArr [JObj [(''question'', JStr ''Q''),
                       (''options'', JArr [JStr ''a'', JStr ''b'', JStr ''c'', JStr ''d'']),
                       (''correct'', JNum (Finite 1))]])
   \<and> validate_text json_parse int_toString
         ''garbage [ {"question":"Q","options":["a","b","c","d"],"correct":1} ] trailing''
       = Inr [\<lparr>question = ''Q'', options = [''a'', ''b'', ''c'', ''d''], correct = Finite 1,
               explanation = JStr [], subject = JStr []\<rparr>]\<close>
proof -
  have p: \<open>json_parse ''[ {"question":"Q","options":["a","b","c","d"],"correct":1} ]'' =
     Some (JArr [JObj [(''question'', JStr ''Q''),
                       (''options'', JArr [JStr ''a'', JStr ''b'', JStr ''c'', JStr ''d'']),
                       (''correct'', JNum (Finite 1))]])\<close>
    by code_simp
  from bracketed_span_example [of json_parse int_toString, OF p] have
    \<open>validate_text json_parse int_toString
         ''garbage [ {"question":"Q","options":["a","b","c","d"],"correct":1} ] trailing''
       = Inr [\<lparr>question = ''Q'', options = [''a'', ''b'', ''c'', ''d''], correct = Finite 1,
               explanation = JStr [], subject = JStr []\<rparr>]\<close>
    by (rule conjunct2)
  with p show ?thesis by (rule conjI)
qed

text \<open>
  Claim C3. An element whose options array has length 3 is skipped, and so is an element
  with 4 options whose \<open>correct\<close> is 4: the loop gives what it gives without the
  element. For every parsed array of candidates (none of them \<open>null\<close>) in which no
  element passes the checks, the validator fails the batch with the no-valid-questions
  error; and it never returns the empty sequence.
\<close>

theorem invalid_elements_skipped_empty_batch_fails:
  "(get_prop q ''options'' = Some (JArr opts) \<and> length opts = 3 \<longrightarrow>
      options_invalid q
      \<and> validate_loop num2str (xs @ q # ys) acc = validate_loop num2str (xs @ ys) acc)
   \<and> (get_prop q ''options'' = Some (JArr opts) \<and> length opts = 4
        \<and> get_prop q ''correct'' = Some (JNum (Finite 4)) \<longrightarrow>
      correct_invalid q
      \<and> validate_loop num2str (xs @ q # ys) acc = validate_loop num2str (xs @ ys) acc)
   \<and> (JSON_parse (jsonText text) = Some (JArr qs) \<and> JNull \<notin> set qs
        \<and> \<not> list_ex passes_checks qs \<longrightarrow>
      validate_text JSON_parse num2str text = Inl no_valid_questions)
   \<and> validate_text JSON_parse num2str text \<noteq> Inr []"
proof (intro conjI impI)
  assume a: "get_prop q ''options'' = Some (JArr opts) \<and> length opts = 3"
  then show "options_invalid q" by (simp add: options_invalid_def)
  from a have "q \<noteq> JNull" and "\<not> passes_checks q"
    by (auto simp: passes_checks_def)
  then show "validate_loop num2str (xs @ q # ys) acc = validate_loop num2str (xs @ ys) acc"
    by (rule validate_loop_skip)
next
  assume a: "get_prop q ''options'' = Some (JArr opts) \<and> length opts = 4
        \<and> get_prop q ''correct'' = Some (JNum (Finite 4))"
  then show "correct_invalid q" by (simp add: correct_invalid_def js_ge_def)
  from a have "q \<noteq> JNull" and "\<not> passes_checks q"
    by (auto simp: passes_checks_def number_in_def)
  then show "validate_loop num2str (xs @ q # ys) acc = validate_loop num2str (xs @ ys) acc"
    by (rule validate_loop_skip)
next
  assume a: "JSON_parse (jsonText text) = Some (JArr qs) \<and> JNull \<notin> set qs
        \<and> \<not> list_ex passes_checks qs"
  then have p: "JSON_parse (jsonText text) = Some (JArr qs)" and n: "JNull \<notin> set qs"
    by simp_all
  from a have "filter passes_checks qs = []"
    by (auto simp: list_ex_iff filter_empty_conv)
  then have m: "map Inr [] = map (validated num2str) (filter passes_checks qs)"
    by simp
  from validate_text_array [where JSON_parse = JSON_parse and n = num2str, OF p n m]
  show "validate_text JSON_parse num2str text = Inl no_valid_questions"
    by simp
next
  show "validate_text JSON_parse num2str text \<noteq> Inr []"
    by (rule validate_text_never_empty)
qed

text \<open>
  A witness: an element with three options before a valid one is skipped; an element
  with \<open>correct\<close> 4 after a valid one is skipped; and the array of the element with
  three options alone fails the batch.
\<close>

theorem invalid_elements_skipped_empty_batch_fails_witness:
  \<open>validate_text json_parse int_toString
      ''[{"question":"Q","options":["a","b","c"],"correct":1}]''
     = Inl (Error ''No valid questions could be generated from the AI response'')
   \<and> validate_loop int_toString
       ([] @ JObj [(''question'', JStr ''Q''),
                   (''options'', JArr [JStr ''a'', JStr ''b'', JStr ''c'']),
                   (''correct'', JNum (Finite 1))]
           # [JObj [(''question'', JStr ''R''),
                    (''options'', JArr [JStr ''a'', JStr ''b'', JStr ''c'', JStr ''d'']),
                    (''correct'', JNum (Finite 1))]]) []
     = Inr [\<lparr>question = ''R'', options = [''a'', ''b'', ''c'', ''d''], correct = Finite 1,
              explanation = JStr [], subject = JStr []\<rparr>]
   \<and> validate_loop int_toString
       ([JObj [(''question'', JStr ''R''),
               (''options'', JArr [JStr ''a'', JStr ''b'', JStr ''c'', JStr ''d'']),
               (''correct'', JNum (Finite 1))]]
          @ JObj [(''question'', JStr ''Q''),
                  (''options'', JArr [JStr ''a'', JStr ''b'', JStr ''c'', JStr ''d'']),
                  (''correct'', JNum (Finite 4))] # []) []
     = Inr [\<lparr>question = ''R'', options = [''a'', ''b'', ''c'', ''d''], correct = Finite 1,
              explanation = JStr [], subject = JStr []\<rparr>]\<close>
proof -
  have p: \<open>json_parse (jsonText ''[{"question":"Q","options":["a","b","c"],"correct":1}]'')
     = Some (JArr [JObj [(''question'', JStr ''Q''),
                         (''options'', JArr [JStr ''a'', JStr ''b'', JStr ''c'']),
                         (''correct'', JNum (Finite 1))]])\<close>
    by code_simp
  have n: "JNull \<notin> set [JObj [(''question'', JStr ''Q''),
                         (''options'', JArr [JStr ''a'', JStr ''b'', JStr ''c'']),
                         (''correct'', JNum (Finite 1))]]
     \<and> \<not> list_ex passes_checks [JObj [(''question'', JStr ''Q''),
                         (''options'', JArr [JStr ''a'', JStr ''b'', JStr ''c'']),
                         (''correct'', JNum (Finite 1))]]"
    by code_simp
  have o3: "get_prop (JObj [(''question'', JStr ''Q''),
                   (''options'', JArr [JStr ''a'', JStr ''b'', JStr ''c'']),
                   (''correct'', JNum (Finite 1))]) ''options''
              = Some (JArr [JStr ''a'', JStr ''b'', JStr ''c''])
            \<and> length [JStr ''a'', JStr ''b'', JStr ''c''] = 3"
    by simp
  have c4: "get_prop (JObj [(''question'', JStr ''Q''),
                  (''options'', JArr [JStr ''a'', JStr ''b'', JStr ''c'', JStr ''d'']),
                  (''correct'', JNum (Finite 4))]) ''options''
              = Some (JArr [JStr ''a'', JStr ''b'', JStr ''c'', JStr ''d''])
            \<and> length [JStr ''a'', JStr ''b'', JStr ''c'', JStr ''d''] = 4
            \<and> get_prop (JObj [(''question'', JStr ''Q''),
                  (''options'', JArr [JStr ''a'', JStr ''b'', JStr ''c'', JStr ''d'']),
                  (''correct'', JNum (Finite 4))]) ''correct'' = Some (JNum (Finite 4))"
    by simp
  have r: "validate_loop int_toString
       [JObj [(''question'', JStr ''R''),
              (''options'', JArr [JStr ''a'', JStr ''b'', JStr ''c'', JStr ''d'']),
              (''correct'', JNum (Finite 1))]] []
     = Inr [\<lparr>question = ''R'', options = [''a'', ''b'', ''c'', ''d''], correct = Finite 1,
              explanation = JStr [], subject = JStr []\<rparr>]"
    by code_simp
  note t = invalid_elements_skipped_empty_batch_fails
  have 1: \<open>validate_text json_parse int_toString
      ''[{"question":"Q","options":["a","b","c"],"correct":1}]''
     = Inl (Error ''No valid questions could be generated from the AI response'')\<close>
    using t [where JSON_parse = json_parse and num2str = int_toString, THEN conjunct2,
        THEN conjunct2, THEN conjunct1, rule_format, OF conjI [OF p n]]
    by (simp only: no_valid_questions_def)
  have 2: "validate_loop int_toString
       ([] @ JObj [(''question'', JStr ''Q''),
                   (''options'', JArr [JStr ''a'', JStr ''b'', JStr ''c'']),
                   (''correct'', JNum (Finite 1))]
           # [JObj [(''question'', JStr ''R''),
                    (''options'', JArr [JStr ''a'', JStr ''b'', JStr ''c'', JStr ''d'']),
                    (''correct'', JNum (Finite 1))]]) []
     = Inr [\<lparr>question = ''R'', options = [''a'', ''b'', ''c'', ''d''], correct = Finite 1,
              explanation = JStr [], subject = JStr []\<rparr>]"
    using t [THEN conjunct1, rule_format, OF o3, THEN conjunct2, of int_toString "[]" _ "[]"] r
    by (simp only: append_Nil)
  have 3: "validate_loop int_toString
       ([JObj [(''question'', JStr ''R''),
               (''options'', JArr [JStr ''a'', JStr ''b'', JStr ''c'', JStr ''d'']),
               (''correct'', JNum (Finite 1))]]
          @ JObj [(''question'', JStr ''Q''),
                  (''options'', JArr [JStr ''a'', JStr ''b'', JStr ''c'', JStr ''d'']),
                  (''correct'', JNum (Finite 4))] # []) []
     = Inr [\<lparr>question = ''R'', options = [''a'', ''b'', ''c'', ''d''], correct = Finite 1,
              explanation = JStr [], subject = JStr []\<rparr>]"
    using t [THEN conjunct2, THEN conjunct1, rule_format, OF c4, THEN conjunct2,
        of int_toString _ "[]" "[]"] r
    by (simp only: append_Nil2)
  from 1 2 3 show ?thesis by (intro conjI)
qed

text \<open>
  Claim C4, as amended. Every record the validator returns is the record of an element
  \<open>q\<close> of the parsed array, and has this shape: its question text is the trimmed form
  of the question of \<open>q\<close>, a non-empty string; its options are exactly 4 strings, the
  4 options of \<open>q\<close> in order, each kept when it is a string and rendered by \<open>String\<close>
  otherwise; its \<open>correct\<close> is that of \<open>q\<close>, a number with \<open>0 \<le> correct < 4\<close>, which
  need not be an integer; and its explanation and its subject are those of \<open>q\<close>, or
  the empty string when \<open>q\<close> has none (or a falsy one).
\<close>

theorem returned_record_shape:
  assumes "validate_text JSON_parse num2str text = Inr rs" and "r \<in> set rs"
  shows "\<exists>qs q s opts n.
           JSON_parse (jsonText text) = Some (JArr qs) \<and> q \<in> set qs
         \<and> get_prop q ''question'' = Some (JStr s) \<and> s \<noteq> [] \<and> question r = trim s
         \<and> get_prop q ''options'' = Some (JArr opts) \<and> length opts = 4
         \<and> map Inr (options r)
             = map (\<lambda>opt. case opt of JStr t \<Rightarrow> Inr t | _ \<Rightarrow> js_String num2str opt) opts
         \<and> length (options r) = 4
         \<and> get_prop q ''correct'' = Some (JNum n) \<and> correct r = n
         \<and> \<not> is_infinite n \<and> 0 \<le> finite_value n \<and> finite_value n < 4
         \<and> explanation r = or_empty (get_prop q ''explanation'')
         \<and> subject r = or_empty (get_prop q ''subject'')
         \<and> (get_prop q ''explanation'' = None \<longrightarrow> explanation r = JStr [])
         \<and> (get_prop q ''subject'' = None \<longrightarrow> subject r = JStr [])"
proof -
  from validate_text_Inr [OF assms(1)] obtain qs where
    p: "JSON_parse (jsonText text) = Some (JArr qs)"
    and m: "map Inr rs = map (validated num2str) (filter passes_checks qs)"
    by blast
  from assms(2) have "(Inr r :: js_error + QuestionData) \<in> set (map Inr rs)" by simp
  then have "Inr r \<in> set (map (validated num2str) (filter passes_checks qs))"
    unfolding m .
  then obtain q where q: "q \<in> set qs" "passes_checks q"
    and v: "validated num2str q = Inr r"
    by auto
  from q(2) obtain s opts n where
    f: "get_prop q ''question'' = Some (JStr s)" "s \<noteq> []"
       "get_prop q ''options'' = Some (JArr opts)" "length opts = 4"
       "get_prop q ''correct'' = Some (JNum n)" "number_in n 0 4"
    by (auto simp: passes_checks_def split: option.splits json.splits)
  from v f obtain strs where
    o: "validOptions num2str opts = Inr strs"
    and r: "question r = trim s" "options r = strs" "correct r = n"
      "explanation r = or_empty (get_prop q ''explanation'')"
      "subject r = or_empty (get_prop q ''subject'')"
    by (auto simp: validated_def split: sum.splits)
  from o have c:
    "map (\<lambda>opt. case opt of JStr t \<Rightarrow> Inr t | _ \<Rightarrow> js_String num2str opt) opts = map Inr strs"
    by (simp add: validOptions_def sequence_Inr_iff)
  then have "length opts = length strs" by (rule map_eq_imp_length_eq)
  with f(4) have l: "length strs = 4" by simp
  show ?thesis
    apply (rule exI [of _ qs], rule exI [of _ q], rule exI [of _ s], rule exI [of _ opts],
        rule exI [of _ n])
    using p q(1) f r c l by (simp add: or_empty_None number_in_def)
qed

text \<open>
  A witness: the question is trimmed, the options \<open>2\<close>, \<open>true\<close> and \<open>null\<close> are
  rendered as strings, and the absent explanation and subject are empty.
\<close>

theorem returned_record_shape_witness:
  \<open>validate_text json_parse int_toString
      ''[{"question":"  Q? ","options":["a",2,true,null],"correct":3}]''
    = Inr [\<lparr>question = ''Q?'', options = [''a'', ''2'', ''true'', ''null''], correct = Finite 3,
            explanation = JStr [], subject = JStr []\<rparr>]
   \<and> (\<exists>q s opts n.
           json_parse (jsonText ''[{"question":"  Q? ","options":["a",2,true,null],"correct":3}]'')
             = Some (JArr [q])
         \<and> get_prop q ''question'' = Some (JStr s) \<and> s = ''  Q? '' \<and> ''Q?'' = trim s
         \<and> get_prop q ''options'' = Some (JArr opts) \<and> length opts = 4
         \<and> map Inr [''a'', ''2'', ''true'', ''null'']
             = map (\<lambda>opt. case opt of JStr t \<Rightarrow> Inr t | _ \<Rightarrow> js_String int_toString opt) opts
         \<and> get_prop q ''correct'' = Some (JNum n) \<and> n = Finite 3
         \<and> get_prop q ''explanation'' = None \<and> get_prop q ''subject'' = None)\<close>
proof -
  have h: \<open>validate_text json_parse int_toString
      ''[{"question":"  Q? ","options":["a",2,true,null],"correct":3}]''
    = Inr [\<lparr>question = ''Q?'', options = [''a'', ''2'', ''true'', ''null''], correct = Finite 3,
            explanation = JStr [], subject = JStr []\<rparr>]\<close>
    by code_simp
  have p: \<open>json_parse (jsonText ''[{"question":"  Q? ","options":["a",2,true,null],"correct":3}]'')
    = Some (JArr [JObj [(''question'', JStr ''  Q? ''),
                        (''options'', JArr [JStr ''a'', JNum (Finite 2), JBool True, JNull]),
                        (''correct'', JNum (Finite 3))]])\<close>
    by code_simp
  have "\<lparr>question = ''Q?'', options = [''a'', ''2'', ''true'', ''null''], correct = Finite 3,
            explanation = JStr [], subject = JStr []\<rparr>
        \<in> set [\<lparr>question = ''Q?'', options = [''a'', ''2'', ''true'', ''null''],
                  correct = Finite 3, explanation = JStr [], subject = JStr []\<rparr>]"
    by simp
  from returned_record_shape [where JSON_parse = json_parse and num2str = int_toString,
      OF h this]
  obtain qs q s opts n where
    a: \<open>json_parse (jsonText ''[{"question":"  Q? ","options":["a",2,true,null],"correct":3}]'')
         = Some (JArr qs)\<close> "q \<in> set qs"
    and b: "get_prop q ''question'' = Some (JStr s)" "''Q?'' = trim s"
      "get_prop q ''options'' = Some (JArr opts)" "length opts = 4"
      "map Inr [''a'', ''2'', ''true'', ''null'']
         = map (\<lambda>opt. case opt of JStr t \<Rightarrow> Inr t | _ \<Rightarrow> js_String int_toString opt) opts"
      "get_prop q ''correct'' = Some (JNum n)" "Finite 3 = n"
    by auto
  from a(1) [unfolded p] have "qs = [JObj [(''question'', JStr ''  Q? ''),
                        (''options'', JArr [JStr ''a'', JNum (Finite 2), JBool True, JNull]),
                        (''correct'', JNum (Finite 3))]]"
    by simp
  with a(2) have q: "q = JObj [(''question'', JStr ''  Q? ''),
                        (''options'', JArr [JStr ''a'', JNum (Finite 2), JBool True, JNull]),
                        (''correct'', JNum (Finite 3))]"
    by simp
  with b(1) have s: "s = ''  Q? ''" by simp
  from q have e: "get_prop q ''explanation'' = None" "get_prop q ''subject'' = None"
    by simp_all
  from p q have p': \<open>json_parse
      (jsonText ''[{"question":"  Q? ","options":["a",2,true,null],"correct":3}]'')
    = Some (JArr [q])\<close>
    by (simp only:)
  from p' b s e have \<open>\<exists>q s opts n.
           json_parse (jsonText ''[{"question":"  Q? ","options":["a",2,true,null],"correct":3}]'')
             = Some (JArr [q])
         \<and> get_prop q ''question'' = Some (JStr s) \<and> s = ''  Q? '' \<and> ''Q?'' = trim s
         \<and> get_prop q ''options'' = Some (JArr opts) \<and> length opts = 4
         \<and> map Inr [''a'', ''2'', ''true'', ''null'']
             = map (\<lambda>opt. case opt of JStr t \<Rightarrow> Inr t | _ \<Rightarrow> js_String int_toString opt) opts
         \<and> get_prop q ''correct'' = Some (JNum n) \<and> n = Finite 3
         \<and> get_prop q ''explanation'' = None \<and> get_prop q ''subject'' = None\<close>
    by blast
  with h show ?thesis by (rule conjI)
qed

text \<open>
  The claim as stated fails: \<open>correct\<close> need not be integer-valued. The element below
  has \<open>correct\<close> 1.5, passes the three checks, and is returned with it.
\<close>

theorem fractional_correct_counterexample:
  \<open>validate_text json_parse int_toString
      ''[{"question":"Q","options":["a","b","c","d"],"correct":1.5}]''
    = Inr [\<lparr>question = ''Q'', options = [''a'', ''b'', ''c'', ''d''], correct = Finite (3 / 2),
            explanation = JStr [], subject = JStr []\<rparr>]
   \<and> (3 / 2 :: rat) \<notin> \<int>\<close>
proof -
  have \<open>validate_text json_parse int_toString
      ''[{"question":"Q","options":["a","b","c","d"],"correct":1.5}]''
    = Inr [\<lparr>question = ''Q'', options = [''a'', ''b'', ''c'', ''d''], correct = Finite (3 / 2),
            explanation = JStr [], subject = JStr []\<rparr>]\<close>
    by code_simp
  moreover have "(3 / 2 :: rat) \<notin> \<int>"
  proof
    assume "(3 / 2 :: rat) \<in> \<int>"
    then obtain k :: int where "(3 / 2 :: rat) = of_int k" by (auto elim: Ints_cases)
    then have "(3 :: rat) = of_int (2 * k)" by simp
    then have "(3 :: int) = 2 * k" using of_int_eq_iff [of 3 "2 * k", where 'a = rat] by simp
    then show False by presburger
  qed
  ultimately show ?thesis by (rule conjI)
qed

text \<open>
  The question is tested before it is trimmed: a question of white space only passes the
  first check, and the record returned for it has the empty question text.
\<close>

lemma blank_question_returned_empty:
  \<open>validate_text json_parse int_toString
      ''[{"question":"   ","options":["a","b","c","d"],"correct":1}]''
    = Inr [\<lparr>question = [], options = [''a'', ''b'', ''c'', ''d''], correct = Finite 1,
            explanation = JStr [], subject = JStr []\<rparr>]\<close>
  by code_simp

text \<open>
  Claim C10. For every candidate element whose question field is present, a string, and
  the empty string, the first check of the loop fails and the validator skips the
  element: wherever it stands in the array, the loop gives what it gives without it.
\<close>

theorem empty_question_skipped:
  assumes "get_prop q ''question'' = Some (JStr [])"
  shows "question_invalid q
       \<and> validate_loop num2str (xs @ q # ys) acc = validate_loop num2str (xs @ ys) acc"
proof -
  from assms have "q \<noteq> JNull" by auto
  moreover from assms have "\<not> passes_checks q" by (simp add: passes_checks_def)
  ultimately have
    "validate_loop num2str (xs @ q # ys) acc = validate_loop num2str (xs @ ys) acc"
    by (rule validate_loop_skip)
  moreover from assms have "question_invalid q" by (simp add: question_invalid_def)
  ultimately show ?thesis by simp
qed

text \<open>
  A witness: the element with the empty question, otherwise valid, stands between two
  valid ones, and the loop returns the records of those two.
\<close>

theorem empty_question_skipped_witness:
  "validate_loop int_toString
     ([JObj [(''question'', JStr ''P''),
             (''options'', JArr [JStr ''a'', JStr ''b'', JStr ''c'', JStr ''d'']),
             (''correct'', JNum (Finite 0))]]
      @ JObj [(''question'', JStr []),
              (''options'', JArr [JStr ''a'', JStr ''b'', JStr ''c'', JStr ''d'']),
              (''correct'', JNum (Finite 1))]
      # [JObj [(''question'', JStr ''R''),
               (''options'', JArr [JStr ''a'', JStr ''b'', JStr ''c'', JStr ''d'']),
               (''correct'', JNum (Finite 2))]]) []
   = Inr [\<lparr>question = ''P'', options = [''a'', ''b'', ''c'', ''d''], correct = Finite 0,
            explanation = JStr [], subject = JStr []\<rparr>,
          \<lparr>question = ''R'', options = [''a'', ''b'', ''c'', ''d''], correct = Finite 2,
            explanation = JStr [], subject = JStr []\<rparr>]"
proof -
  have h: "get_prop (JObj [(''question'', JStr []),
              (''options'', JArr [JStr ''a'', JStr ''b'', JStr ''c'', JStr ''d'']),
              (''correct'', JNum (Finite 1))]) ''question'' = Some (JStr [])"
    by simp
  have r: "validate_loop int_toString
     ([JObj [(''question'', JStr ''P''),
             (''options'', JArr [JStr ''a'', JStr ''b'', JStr ''c'', JStr ''d'']),
             (''correct'', JNum (Finite 0))]]
      @ [JObj [(''question'', JStr ''R''),
               (''options'', JArr [JStr ''a'', JStr ''b'', JStr ''c'', JStr ''d'']),
               (''correct'', JNum (Finite 2))]]) []
   = Inr [\<lparr>question = ''P'', options = [''a'', ''b'', ''c'', ''d''], correct = Finite 0,
            explanation = JStr [], subject = JStr []\<rparr>,
          \<lparr>question = ''R'', options = [''a'', ''b'', ''c'', ''d''], correct = Finite 2,
            explanation = JStr [], subject = JStr []\<rparr>]"
    by code_simp
  from empty_question_skipped [OF h, THEN conjunct2, of int_toString] r
  show ?thesis by (simp only:)
qed

section \<open>The generation endpoint: the status of a failure\<close>

lemma status_invalid_key: "error_status invalid_key = 401"
  by (simp add: error_status_def invalid_key_def)

lemma status_quota_exceeded: "error_status quota_exceeded = 429"
  by (simp add: error_status_def quota_exceeded_def)

lemma status_service_unavailable: "error_status service_unavailable = 500"
  by (simp add: error_status_def service_unavailable_def)

lemma status_no_response: "error_status no_response = 500"
  by (simp add: error_status_def no_response_def)

lemma status_parse_failed: "error_status parse_failed = 500"
  by (simp add: error_status_def parse_failed_def)

lemma status_not_an_array: "error_status not_an_array = 500"
  by (simp add: error_status_def not_an_array_def)

lemma status_no_valid_questions: "error_status no_valid_questions = 500"
  by (simp add: error_status_def no_valid_questions_def)

lemma truthy_not_null: "truthy (get_prop body k) \<Longrightarrow> body \<noteq> JNull"
  by auto

lemma response_error_cases:
  "status response = 401 \<Longrightarrow> response_error response = invalid_key"
  "status response = 429 \<Longrightarrow> response_error response = quota_exceeded"
  "status response \<ge> 500 \<Longrightarrow> response_error response = service_unavailable"
  by (simp_all add: response_error_def)

lemma not_ok_cases:
  "status response = 401 \<Longrightarrow> \<not> ok response"
  "status response = 429 \<Longrightarrow> \<not> ok response"
  "status response \<ge> 500 \<Longrightarrow> \<not> ok response"
  by (simp_all add: ok_def)

lemma generate_not_ok:
  "\<not> ok response \<Longrightarrow>
     generateQuestionsWithGemini P n True (Resolved response) = Inl (response_error response)"
  by (simp add: generateQuestionsWithGemini_def)

lemma handler_failure:
  assumes "truthy (get_prop body ''prompt'')" and "is_string (get_prop body ''prompt'')"
    and "generateQuestionsWithGemini P n True fetched = Inl e"
  shows "generate_handler P n S True fetched connection insertedId now ''POST'' body
           = (error_status e, [])"
  using assms truthy_not_null [OF assms(1)] by (simp add: generate_handler_def)

text \<open>
  Claim C6, as amended. For every failure of the AI client during POST /api/generate
  (the prompt being valid and the key set), the status returned is chosen by the message
  of the failure: an invalid-credential failure (upstream 401) maps to 401, a quota
  failure (upstream 429) maps to 429, an upstream-unavailable failure (upstream status
  500 or more) maps to 500, as do an empty response, a malformed response, a response
  that is not an array and one with no valid question; 503 is the status of a failure
  whose message includes \<open>network\<close> or \<open>fetch\<close> and none of \<open>API key\<close>, \<open>quota\<close>
  and \<open>limit\<close>; and every failure whose message includes none of the five maps to 500.
\<close>

theorem generate_failure_status:
  assumes "truthy (get_prop body ''prompt'')" and "is_string (get_prop body ''prompt'')"
    and "generateQuestionsWithGemini JSON_parse num2str True fetched = Inl e"
  shows "fst (generate_handler JSON_parse num2str JSON_stringify True fetched connection
                insertedId now ''POST'' body) = error_status e
       \<and> (fetched = Resolved response \<and> status response = 401 \<longrightarrow> error_status e = 401)
       \<and> (fetched = Resolved response \<and> status response = 429 \<longrightarrow> error_status e = 429)
       \<and> (fetched = Resolved response \<and> status response \<ge> 500 \<longrightarrow> error_status e = 500)
       \<and> (e = no_response \<or> e = parse_failed \<or> e = not_an_array \<or> e = no_valid_questions
            \<longrightarrow> error_status e = 500)
       \<and> ((str_includes (message e) ''network'' \<or> str_includes (message e) ''fetch'')
            \<and> \<not> str_includes (message e) ''API key'' \<and> \<not> str_includes (message e) ''quota''
            \<and> \<not> str_includes (message e) ''limit'' \<longrightarrow> error_status e = 503)
       \<and> (\<not> str_includes (message e) ''API key'' \<and> \<not> str_includes (message e) ''quota''
            \<and> \<not> str_includes (message e) ''limit'' \<and> \<not> str_includes (message e) ''network''
            \<and> \<not> str_includes (message e) ''fetch'' \<longrightarrow> error_status e = 500)"
proof (intro conjI impI)
  show "fst (generate_handler JSON_parse num2str JSON_stringify True fetched connection
                insertedId now ''POST'' body) = error_status e"
    by (simp add: handler_failure [OF assms])
next
  assume "fetched = Resolved response \<and> status response = 401"
  with assms(3) have "e = invalid_key"
    by (simp add: generate_not_ok not_ok_cases response_error_cases)
  then show "error_status e = 401" by (simp add: status_invalid_key)
next
  assume "fetched = Resolved response \<and> status response = 429"
  with assms(3) have "e = quota_exceeded"
    by (simp add: generate_not_ok not_ok_cases response_error_cases)
  then show "error_status e = 429" by (simp add: status_quota_exceeded)
next
  assume "fetched = Resolved response \<and> status response \<ge> 500"
  with assms(3) have "e = service_unavailable"
    by (simp add: generate_not_ok not_ok_cases response_error_cases)
  then show "error_status e = 500" by (simp add: status_service_unavailable)
next
  assume "e = no_response \<or> e = parse_failed \<or> e = not_an_array \<or> e = no_valid_questions"
  then show "error_status e = 500"
    by (auto simp: status_no_response status_parse_failed status_not_an_array
        status_no_valid_questions)
next
  assume "(str_includes (message e) ''network'' \<or> str_includes (message e) ''fetch'')
            \<and> \<not> str_includes (message e) ''API key'' \<and> \<not> str_includes (message e) ''quota''
            \<and> \<not> str_includes (message e) ''limit''"
  then show "error_status e = 503" by (auto simp: error_status_def)
next
  assume "\<not> str_includes (message e) ''API key'' \<and> \<not> str_includes (message e) ''quota''
            \<and> \<not> str_includes (message e) ''limit'' \<and> \<not> str_includes (message e) ''network''
            \<and> \<not> str_includes (message e) ''fetch''"
  then show "error_status e = 500" by (simp add: error_status_def)
qed

text \<open>
  A witness: an upstream 401 is answered with 401, an upstream 429 with 429, and a
  request that could not be sent (\<open>fetch failed\<close>) with 503.
\<close>

theorem generate_failure_status_witness:
  "fst (generate_handler json_parse int_toString json_stringify True
       (Resolved \<lparr>status = 401, statusText = ''Unauthorized'', json_body = Inl (Error [])\<rparr>)
       (Inl (Error [])) (\<lambda>i. None) 0 ''POST'' (JObj [(''prompt'', JStr ''sepsis'')])) = 401
   \<and> fst (generate_handler json_parse int_toString json_stringify True
       (Resolved \<lparr>status = 429, statusText = ''Too Many Requests'', json_body = Inl (Error [])\<rparr>)
       (Inl (Error [])) (\<lambda>i. None) 0 ''POST'' (JObj [(''prompt'', JStr ''sepsis'')])) = 429
   \<and> fst (generate_handler json_parse int_toString json_stringify True
       (Rejected (TypeError ''fetch failed''))
       (Inl (Error [])) (\<lambda>i. None) 0 ''POST'' (JObj [(''prompt'', JStr ''sepsis'')])) = 503"
proof -
  have p: "truthy (get_prop (JObj [(''prompt'', JStr ''sepsis'')]) ''prompt'')"
          "is_string (get_prop (JObj [(''prompt'', JStr ''sepsis'')]) ''prompt'')"
    by simp_all
  have g1: "generateQuestionsWithGemini json_parse int_toString True
     (Resolved \<lparr>status = 401, statusText = ''Unauthorized'', json_body = Inl (Error [])\<rparr>)
      = Inl invalid_key"
    by code_simp
  have s1: "Resolved \<lparr>status = 401, statusText = ''Unauthorized'', json_body = Inl (Error [])\<rparr>
      = Resolved \<lparr>status = 401, statusText = ''Unauthorized'', json_body = Inl (Error [])\<rparr>
    \<and> status \<lparr>status = 401, statusText = ''Unauthorized'', json_body = Inl (Error [])\<rparr> = 401"
    by simp
  have g2: "generateQuestionsWithGemini json_parse int_toString True
     (Resolved \<lparr>status = 429, statusText = ''Too Many Requests'', json_body = Inl (Error [])\<rparr>)
      = Inl quota_exceeded"
    by code_simp
  have s2: "Resolved \<lparr>status = 429, statusText = ''Too Many Requests'', json_body = Inl (Error [])\<rparr>
      = Resolved \<lparr>status = 429, statusText = ''Too Many Requests'', json_body = Inl (Error [])\<rparr>
    \<and> status \<lparr>status = 429, statusText = ''Too Many Requests'', json_body = Inl (Error [])\<rparr> = 429"
    by simp
  have g3: "generateQuestionsWithGemini json_parse int_toString True
     (Rejected (TypeError ''fetch failed'')) = Inl (TypeError ''fetch failed'')"
    by code_simp
  have s3: "(str_includes (message (TypeError ''fetch failed'')) ''network''
              \<or> str_includes (message (TypeError ''fetch failed'')) ''fetch'')
            \<and> \<not> str_includes (message (TypeError ''fetch failed'')) ''API key''
            \<and> \<not> str_includes (message (TypeError ''fetch failed'')) ''quota''
            \<and> \<not> str_includes (message (TypeError ''fetch failed'')) ''limit''"
    by simp
  note t1 = generate_failure_status [OF p g1]
  note t2 = generate_failure_status [OF p g2]
  note t3 = generate_failure_status [OF p g3]
  have 1: "fst (generate_handler json_parse int_toString json_stringify True
       (Resolved \<lparr>status = 401, statusText = ''Unauthorized'', json_body = Inl (Error [])\<rparr>)
       (Inl (Error [])) (\<lambda>i. None) 0 ''POST'' (JObj [(''prompt'', JStr ''sepsis'')])) = 401"
    using t1 [THEN conjunct1] t1 [THEN conjunct2, THEN conjunct1, rule_format, OF s1]
    by (simp only:)
  have 2: "fst (generate_handler json_parse int_toString json_stringify True
       (Resolved \<lparr>status = 429, statusText = ''Too Many Requests'', json_body = Inl (Error [])\<rparr>)
       (Inl (Error [])) (\<lambda>i. None) 0 ''POST'' (JObj [(''prompt'', JStr ''sepsis'')])) = 429"
    using t2 [THEN conjunct1]
      t2 [THEN conjunct2, THEN conjunct2, THEN conjunct1, rule_format, OF s2]
    by (simp only:)
  have 3: "fst (generate_handler json_parse int_toString json_stringify True
       (Rejected (TypeError ''fetch failed''))
       (Inl (Error [])) (\<lambda>i. None) 0 ''POST'' (JObj [(''prompt'', JStr ''sepsis'')])) = 503"
    using t3 [THEN conjunct1]
      t3 [THEN conjunct2, THEN conjunct2, THEN conjunct2, THEN conjunct2, THEN conjunct2,
          THEN conjunct1, rule_format, OF s3]
    by (simp only:)
  from 1 2 3 show ?thesis by (intro conjI)
qed

text \<open>
  The claim as stated fails: an upstream 503 is an upstream-unavailable failure, and the
  status returned to the caller is 500, not 503.
\<close>

theorem upstream_unavailable_counterexample:
  "generateQuestionsWithGemini json_parse int_toString True
     (Resolved \<lparr>status = 503, statusText = ''Service Unavailable'', json_body = Inl (Error [])\<rparr>)
    = Inl (Error ''Gemini API service unavailable. Please try again later.'')
   \<and> fst (generate_handler json_parse int_toString json_stringify True
       (Resolved \<lparr>status = 503, statusText = ''Service Unavailable'', json_body = Inl (Error [])\<rparr>)
       (Inl (Error [])) (\<lambda>i. None) 0 ''POST'' (JObj [(''prompt'', JStr ''sepsis'')])) = 500"
  by code_simp

section \<open>The questions endpoint: creating a question\<close>

lemma parsedOptions_options_array:
  "parsedOptions P v =
     (case options_array P (Some v) of
        None \<Rightarrow> None
      | Some xs \<Rightarrow> if length xs < 2 then None else Some xs)"
  by (cases v) (auto simp: parsedOptions_def options_array_def split: option.splits json.splits)

lemma range_check:
  "(js_less c (Finite 0) \<or> js_ge c (Finite (of_nat n))) = (\<not> index_in_range (Some (JNum c)) n)"
  by (simp add: range_check_number index_in_range_def)

lemma not_number_not_in_range: "\<not> is_number c \<Longrightarrow> \<not> index_in_range c n"
  by (auto simp: index_in_range_def split: option.splits json.splits)

lemma is_number_cases: "is_number c \<Longrightarrow> \<exists>x. c = Some (JNum x)"
  by (cases c rule: is_number.cases) auto

lemma truthy_the: "truthy v \<Longrightarrow> v = Some (the v)"
  by (cases v) auto

lemma handlePost_refused:
  assumes "body \<noteq> JNull" and "get_prop body ''type'' \<noteq> Some (JStr ''score'')"
    and "question_refused P body"
  shows "handlePost P S new_id now db body = Inr ((400, NoDoc), db)"
proof (cases "truthy (get_prop body ''question'') \<and> truthy (get_prop body ''options'')")
  case False
  with assms(1,2) show ?thesis by (auto simp: handlePost_def)
next
  case True
  then have o: "get_prop body ''options'' = Some (the (get_prop body ''options''))"
    by (simp add: truthy_the [symmetric])
  show ?thesis
  proof (cases "is_number (get_prop body ''correct'')")
    case False
    with assms(1,2) show ?thesis by (simp add: handlePost_def)
  next
    case num: True
    then obtain c where c: "get_prop body ''correct'' = Some (JNum c)"
      using is_number_cases by blast
    show ?thesis
    proof (cases "options_array P (get_prop body ''options'')")
      case None
      then have "parsedOptions P (the (get_prop body ''options'')) = None"
        using o by (simp add: parsedOptions_options_array)
      with assms(1,2) True num show ?thesis by (simp add: handlePost_def)
    next
      case (Some xs)
      with assms(3) True have r: "length xs < 2 \<or> \<not> index_in_range (Some (JNum c)) (length xs)"
        by (simp add: question_refused_def c)
      show ?thesis
      proof (cases "length xs < 2")
        case short: True
        with Some have "parsedOptions P (the (get_prop body ''options'')) = None"
          using o by (simp add: parsedOptions_options_array)
        with assms(1,2) True num show ?thesis by (simp add: handlePost_def)
      next
        case False
        with Some have p: "parsedOptions P (the (get_prop body ''options'')) = Some xs"
          using o by (simp add: parsedOptions_options_array)
        from r False have "js_less c (Finite 0) \<or> js_ge c (Finite (of_nat (length xs)))"
          by (simp add: range_check)
        with assms(1,2) True num p c show ?thesis by (simp add: handlePost_def)
      qed
    qed
  qed
qed

lemma handlePost_created:
  assumes "body \<noteq> JNull" and "get_prop body ''type'' \<noteq> Some (JStr ''score'')"
    and "\<not> question_refused P body"
  shows "\<exists>c. get_prop body ''correct'' = Some (JNum c)
           \<and> handlePost P S new_id now db body =
               Inr ((201, Question (stored_question S new_id now body c)),
                    db\<lparr>questions := questions db @ [stored_question S new_id now body c]\<rparr>)"
proof -
  from assms(3) have t: "truthy (get_prop body ''question'')" "truthy (get_prop body ''options'')"
    by (auto simp: question_refused_def split: if_splits)
  then have o: "get_prop body ''options'' = Some (the (get_prop body ''options''))"
    by (simp add: truthy_the [symmetric])
  from assms(3) t obtain xs where xs: "options_array P (get_prop body ''options'') = Some xs"
    and len: "\<not> length xs < 2" and idx: "index_in_range (get_prop body ''correct'') (length xs)"
    by (auto simp: question_refused_def split: option.splits)
  from idx have num: "is_number (get_prop body ''correct'')"
    using not_number_not_in_range by blast
  then obtain c where c: "get_prop body ''correct'' = Some (JNum c)"
    using is_number_cases by blast
  from xs len have p: "parsedOptions P (the (get_prop body ''options'')) = Some xs"
    using o by (simp add: parsedOptions_options_array)
  from idx c have r: "\<not> (js_less c (Finite 0) \<or> js_ge c (Finite (of_nat (length xs))))"
    by (simp add: range_check)
  have "handlePost P S new_id now db body =
          Inr ((201, Question (stored_question S new_id now body c)),
               db\<lparr>questions := questions db @ [stored_question S new_id now body c]\<rparr>)"
    using assms(1,2) t num p c r by (simp add: handlePost_def Let_def stored_question_def)
  with c show ?thesis by blast
qed

text \<open>
  Claim C7, as amended. POST /api/questions with a body that is not a score (and not
  \<open>null\<close>) returns 400 exactly when the question or the options are missing or falsy,
  the options are not an array of at least 2 items (given as an array or as its JSON
  text), or \<open>correct\<close> is not a number in \<open>[0, length(options))\<close>; on that path no
  record is created. Otherwise it creates the Question record and responds 201.
\<close>

theorem question_post_refused_iff:
  assumes "body \<noteq> JNull" and "get_prop body ''type'' \<noteq> Some (JStr ''score'')"
  shows "(fst (fst (post_handler JSON_parse JSON_stringify new_id now db body)) = 400
           \<longleftrightarrow> question_refused JSON_parse body)
       \<and> (question_refused JSON_parse body \<longrightarrow>
            post_handler JSON_parse JSON_stringify new_id now db body = ((400, NoDoc), db))
       \<and> (\<not> question_refused JSON_parse body \<longrightarrow>
            (\<exists>c. get_prop body ''correct'' = Some (JNum c)
               \<and> post_handler JSON_parse JSON_stringify new_id now db body
                   = ((201, Question (stored_question JSON_stringify new_id now body c)),
                      db\<lparr>questions :=
                          questions db @ [stored_question JSON_stringify new_id now body c]\<rparr>)))"
proof -
  have refused: "post_handler JSON_parse JSON_stringify new_id now db body = ((400, NoDoc), db)"
    if "question_refused JSON_parse body"
    using handlePost_refused [OF assms that] by (simp add: post_handler_def)
  have created: "\<exists>c. get_prop body ''correct'' = Some (JNum c)
               \<and> post_handler JSON_parse JSON_stringify new_id now db body
                   = ((201, Question (stored_question JSON_stringify new_id now body c)),
                      db\<lparr>questions :=
                          questions db @ [stored_question JSON_stringify new_id now body c]\<rparr>)"
    if n: "\<not> question_refused JSON_parse body"
    using handlePost_created [OF assms n, of JSON_stringify new_id now db]
    by (auto simp: post_handler_def)
  have "fst (fst (post_handler JSON_parse JSON_stringify new_id now db body)) = 400
           \<longleftrightarrow> question_refused JSON_parse body"
  proof (cases "question_refused JSON_parse body")
    case True
    with refused show ?thesis by simp
  next
    case False
    from created [OF False] obtain c where
      "post_handler JSON_parse JSON_stringify new_id now db body
         = ((201, Question (stored_question JSON_stringify new_id now body c)),
            db\<lparr>questions :=
                questions db @ [stored_question JSON_stringify new_id now body c]\<rparr>)"
      by blast
    with False show ?thesis by simp
  qed
  with refused created show ?thesis by blast
qed

text \<open>
  A witness: with the options given as the JSON text of three items, the index 3 is
  refused with 400 and nothing is stored, and the index 2 is not answered with 400.
\<close>

theorem question_post_refused_iff_witness:
  \<open>post_handler json_parse json_stringify ''65f000000000000000000001'' 17
       \<lparr>step1 = [], step2 = [], step3 = [], questions = [], scores = []\<rparr>
       (JObj [(''question'', JStr ''Q''), (''options'', JStr ''["a","b","c"]''),
              (''correct'', JNum (Finite 3))])
     = ((400, NoDoc), \<lparr>step1 = [], step2 = [], step3 = [], questions = [], scores = []\<rparr>)
   \<and> fst (fst (post_handler json_parse json_stringify ''65f000000000000000000001'' 17
       \<lparr>step1 = [], step2 = [], step3 = [], questions = [], scores = []\<rparr>
       (JObj [(''question'', JStr ''Q''), (''options'', JStr ''["a","b","c"]''),
              (''correct'', JNum (Finite 2))]))) \<noteq> 400\<close>
proof -
  have b: \<open>JObj [(''question'', JStr ''Q''), (''options'', JStr ''["a","b","c"]''),
              (''correct'', JNum (Finite 3))] \<noteq> JNull\<close>
      \<open>get_prop (JObj [(''question'', JStr ''Q''), (''options'', JStr ''["a","b","c"]''),
              (''correct'', JNum (Finite 3))]) ''type'' \<noteq> Some (JStr ''score'')\<close>
    by simp_all
  have r: \<open>question_refused json_parse
       (JObj [(''question'', JStr ''Q''), (''options'', JStr ''["a","b","c"]''),
              (''correct'', JNum (Finite 3))])\<close>
    by code_simp
  have b': \<open>JObj [(''question'', JStr ''Q''), (''options'', JStr ''["a","b","c"]''),
              (''correct'', JNum (Finite 2))] \<noteq> JNull\<close>
      \<open>get_prop (JObj [(''question'', JStr ''Q''), (''options'', JStr ''["a","b","c"]''),
              (''correct'', JNum (Finite 2))]) ''type'' \<noteq> Some (JStr ''score'')\<close>
    by simp_all
  have r': \<open>\<not> question_refused json_parse
       (JObj [(''question'', JStr ''Q''), (''options'', JStr ''["a","b","c"]''),
              (''correct'', JNum (Finite 2))])\<close>
    by code_simp
  from question_post_refused_iff [OF b, THEN conjunct2, THEN conjunct1, rule_format, OF r]
       question_post_refused_iff [OF b', THEN conjunct1] r'
  show ?thesis by simp
qed

text \<open>
  The claim as stated fails: in the body below the options are a JSON array of 2 items
  and the index 0 is in range, so the stated condition for 400 does not hold; the
  question is the empty string, and the reply is 400 with nothing stored.
\<close>

theorem empty_question_refused_counterexample:
  "\<not> stated_refused json_parse
       (JObj [(''question'', JStr []), (''options'', JArr [JStr ''a'', JStr ''b'']),
              (''correct'', JNum (Finite 0))])
   \<and> post_handler json_parse json_stringify ''65f000000000000000000001'' 17
       \<lparr>step1 = [], step2 = [], step3 = [], questions = [], scores = []\<rparr>
       (JObj [(''question'', JStr []), (''options'', JArr [JStr ''a'', JStr ''b'']),
              (''correct'', JNum (Finite 0))])
     = ((400, NoDoc), \<lparr>step1 = [], step2 = [], step3 = [], questions = [], scores = []\<rparr>)"
  by code_simp

section \<open>The questions endpoint: recording a score\<close>

lemma handlePost_score:
  assumes "get_prop body ''type'' = Some (JStr ''score'')"
    and "get_prop body ''score'' = Some (JNum sc)" and "get_prop body ''total'' = Some (JNum tot)"
  shows "post_handler P S new_id now db body =
     ((201, Score \<lparr> s_id = new_id, s_score = sc, s_total = tot,
                    s_percentage =
                      (if truthy (get_prop body ''percentage'')
                       then Inl (the (get_prop body ''percentage''))
                       else Inr (times_100 (js_divide sc tot))),
                    s_duration = get_prop body ''duration'',
                    s_step = (if truthy (get_prop body ''step'')
                              then the (get_prop body ''step'') else JStr ''mixed''),
                    s_createdAt = now \<rparr>),
      db\<lparr>scores := scores db @ [\<lparr> s_id = new_id, s_score = sc, s_total = tot,
                    s_percentage =
                      (if truthy (get_prop body ''percentage'')
                       then Inl (the (get_prop body ''percentage''))
                       else Inr (times_100 (js_divide sc tot))),
                    s_duration = get_prop body ''duration'',
                    s_step = (if truthy (get_prop body ''step'')
                              then the (get_prop body ''step'') else JStr ''mixed''),
                    s_createdAt = now \<rparr>]\<rparr>)"
proof -
  from assms(1) have "body \<noteq> JNull" by auto
  with assms show ?thesis by (simp add: post_handler_def handlePost_def Let_def)
qed

lemma handlePost_score_refused:
  assumes "body \<noteq> JNull" and "get_prop body ''type'' = Some (JStr ''score'')"
    and "\<not> is_number (get_prop body ''score'') \<or> \<not> is_number (get_prop body ''total'')"
  shows "post_handler P S new_id now db body = ((400, NoDoc), db)"
proof -
  have "\<not> (\<exists>a b. get_prop body ''score'' = Some (JNum a) \<and> get_prop body ''total'' = Some (JNum b))"
    using assms(3) by auto
  then have "(case (get_prop body ''score'', get_prop body ''total'') of
           (Some (JNum a), Some (JNum b)) \<Rightarrow> f a b
         | _ \<Rightarrow> g) = g" for f :: "number \<Rightarrow> number \<Rightarrow> js_error + post_reply \<times> database" and g
    by (auto split: option.splits json.splits)
  with assms(1,2) show ?thesis by (simp add: post_handler_def handlePost_def)
qed

lemma seventy: "times_100 (js_divide (Finite 7) (Finite 10)) = Num (Finite 70)"
  by code_simp

text \<open>
  Claim C9, as amended. Every Score record created through POST /api/questions with
  type \<open>score\<close> stores the score and the total of the request as they are given, any
  two numbers: no check relates them, so \<open>0 \<le> score \<le> total\<close> holds of the record
  exactly when it holds of the request. When the percentage is omitted from the request
  it is computed as \<open>score / total * 100\<close> (a score of 7 of a total of 10 gives 70)
  rather than being required.
\<close>

theorem score_record_created:
  assumes "get_prop body ''type'' = Some (JStr ''score'')"
    and "get_prop body ''score'' = Some (JNum sc)" and "get_prop body ''total'' = Some (JNum tot)"
  shows "\<exists>doc. post_handler JSON_parse JSON_stringify new_id now db body
                 = ((201, Score doc), db\<lparr>scores := scores db @ [doc]\<rparr>)
             \<and> s_score doc = sc \<and> s_total doc = tot
             \<and> (get_prop body ''percentage'' = None \<longrightarrow>
                  s_percentage doc = Inr (times_100 (js_divide sc tot)))
             \<and> (get_prop body ''percentage'' = None \<and> sc = Finite 7 \<and> tot = Finite 10 \<longrightarrow>
                  s_percentage doc = Inr (Num (Finite 70)))"
  apply (rule exI [of _ "\<lparr> s_id = new_id, s_score = sc, s_total = tot,
                    s_percentage =
                      (if truthy (get_prop body ''percentage'')
                       then Inl (the (get_prop body ''percentage''))
                       else Inr (times_100 (js_divide sc tot))),
                    s_duration = get_prop body ''duration'',
                    s_step = (if truthy (get_prop body ''step'')
                              then the (get_prop body ''step'') else JStr ''mixed''),
                    s_createdAt = now \<rparr>"])
  using handlePost_score [OF assms, of JSON_parse JSON_stringify new_id now db]
  by (auto simp: seventy)

text \<open>
  A witness: the request \<open>{"type":"score","score":7,"total":10}\<close> creates the record
  with the percentage 70.
\<close>

theorem score_record_created_witness:
  \<open>json_parse ''{"type":"score","score":7,"total":10}''
     = Some (JObj [(''type'', JStr ''score''), (''score'', JNum (Finite 7)),
                   (''total'', JNum (Finite 10))])
   \<and> (\<exists>doc. post_handler json_parse json_stringify ''65f000000000000000000001'' 17
          \<lparr>step1 = [], step2 = [], step3 = [], questions = [], scores = []\<rparr>
          (JObj [(''type'', JStr ''score''), (''score'', JNum (Finite 7)),
                 (''total'', JNum (Finite 10))])
        = ((201, Score doc),
           \<lparr>step1 = [], step2 = [], step3 = [], questions = [], scores = [doc]\<rparr>)
       \<and> s_score doc = Finite 7 \<and> s_total doc = Finite 10
       \<and> s_percentage doc = Inr (Num (Finite 70)))\<close>
proof -
  have p: \<open>json_parse ''{"type":"score","score":7,"total":10}''
     = Some (JObj [(''type'', JStr ''score''), (''score'', JNum (Finite 7)),
                   (''total'', JNum (Finite 10))])\<close>
    by code_simp
  have f: "get_prop (JObj [(''type'', JStr ''score''), (''score'', JNum (Finite 7)),
                   (''total'', JNum (Finite 10))]) ''type'' = Some (JStr ''score'')"
    "get_prop (JObj [(''type'', JStr ''score''), (''score'', JNum (Finite 7)),
                   (''total'', JNum (Finite 10))]) ''score'' = Some (JNum (Finite 7))"
    "get_prop (JObj [(''type'', JStr ''score''), (''score'', JNum (Finite 7)),
                   (''total'', JNum (Finite 10))]) ''total'' = Some (JNum (Finite 10))"
    by simp_all
  from score_record_created [OF f, of json_parse json_stringify
      "''65f000000000000000000001''" 17
      "\<lparr>step1 = [], step2 = [], step3 = [], questions = [], scores = []\<rparr>"]
  have "\<exists>doc. post_handler json_parse json_stringify ''65f000000000000000000001'' 17
          \<lparr>step1 = [], step2 = [], step3 = [], questions = [], scores = []\<rparr>
          (JObj [(''type'', JStr ''score''), (''score'', JNum (Finite 7)),
                 (''total'', JNum (Finite 10))])
        = ((201, Score doc),
           \<lparr>step1 = [], step2 = [], step3 = [], questions = [], scores = [doc]\<rparr>)
       \<and> s_score doc = Finite 7 \<and> s_total doc = Finite 10
       \<and> s_percentage doc = Inr (Num (Finite 70))"
    by auto
  with p show ?thesis by (rule conjI)
qed

text \<open>
  The claim as stated fails: a request with the score 11 and the total 10 creates the
  record as it is, with the total below the score.
\<close>

theorem score_above_total_counterexample:
  "post_handler json_parse json_stringify ''65f000000000000000000001'' 17
       \<lparr>step1 = [], step2 = [], step3 = [], questions = [], scores = []\<rparr>
       (JObj [(''type'', JStr ''score''), (''score'', JNum (Finite 11)),
              (''total'', JNum (Finite 10))])
     = ((201, Score \<lparr>s_id = ''65f000000000000000000001'', s_score = Finite 11,
                      s_total = Finite 10, s_percentage = Inr (Num (Finite (110 + 1 / 2 ^ 46))),
                      s_duration = None, s_step = JStr ''mixed'', s_createdAt = 17\<rparr>),
        \<lparr>step1 = [], step2 = [], step3 = [], questions = [],
          scores = [\<lparr>s_id = ''65f000000000000000000001'', s_score = Finite 11,
                      s_total = Finite 10, s_percentage = Inr (Num (Finite (110 + 1 / 2 ^ 46))),
                      s_duration = None, s_step = JStr ''mixed'', s_createdAt = 17\<rparr>]\<rparr>)
   \<and> js_less (Finite 10) (Finite 11)"
  by code_simp

section \<open>The questions endpoint: deleting by identifier\<close>

lemma deleteMany_absent:
  assumes "list_all (\<lambda>x. x \<notin> q_id ` set (questions db)) objectIds"
  shows "deleteMany db objectIds = (0, db)"
proof -
  from assms have "\<And>d. d \<in> set (questions db) \<Longrightarrow> q_id d \<notin> set objectIds"
    by (auto simp: list_all_iff)
  then have "filter (\<lambda>d. q_id d \<in> set objectIds) (questions db) = []"
    and "filter (\<lambda>d. q_id d \<notin> set objectIds) (questions db) = questions db"
    by (auto simp: filter_empty_conv filter_id_conv)
  then show ?thesis by (simp add: deleteMany_def)
qed

lemma deleteMany_present_only:
  "deleteMany db (filter (\<lambda>x. x \<in> q_id ` set (questions db)) objectIds) = deleteMany db objectIds"
proof -
  have "\<And>d. d \<in> set (questions db) \<Longrightarrow>
          (q_id d \<in> set (filter (\<lambda>x. x \<in> q_id ` set (questions db)) objectIds))
            = (q_id d \<in> set objectIds)"
    by auto
  then have "filter (\<lambda>d. q_id d \<in> set (filter (\<lambda>x. x \<in> q_id ` set (questions db)) objectIds))
               (questions db) = filter (\<lambda>d. q_id d \<in> set objectIds) (questions db)"
    and "filter (\<lambda>d. q_id d \<notin> set (filter (\<lambda>x. x \<in> q_id ` set (questions db)) objectIds))
               (questions db) = filter (\<lambda>d. q_id d \<notin> set objectIds) (questions db)"
    by (auto intro!: filter_cong)
  then show ?thesis by (simp add: deleteMany_def)
qed

lemma delete_handler_refused:
  assumes "body \<noteq> JNull" and "ids_refused body"
  shows "delete_handler ObjectId db body = ((400, None), db)"
  using assms
  by (auto simp: delete_handler_def handleDelete_def ids_refused_def
      split: option.splits json.splits)

lemma delete_handler_accepted:
  assumes "body \<noteq> JNull" and "get_prop body ''ids'' = Some (JArr ids)" and "ids \<noteq> []"
    and "map_ObjectId ObjectId ids = Inr objectIds"
  shows "delete_handler ObjectId db body =
           ((200, Some (fst (deleteMany db objectIds))), snd (deleteMany db objectIds))"
  using assms by (simp add: delete_handler_def handleDelete_def split: prod.splits)

lemma delete_handler_thrown:
  assumes "body \<noteq> JNull" and "get_prop body ''ids'' = Some (JArr ids)" and "ids \<noteq> []"
    and "map_ObjectId ObjectId ids = Inl e"
  shows "delete_handler ObjectId db body = ((500, None), db)"
  using assms by (simp add: delete_handler_def handleDelete_def)

text \<open>
  Claim C8, as amended. DELETE /api/questions (the body not being \<open>null\<close>) returns 400
  exactly when the \<open>ids\<close> field is missing, not an array, or empty. For every non-empty
  \<open>ids\<close> array whose elements the driver accepts as identifiers, the identifiers that no
  stored question has contribute zero to the deleted count, and the request returns
  success, with the count 0 and the store unchanged when none of them is present.
\<close>

theorem delete_status_and_count:
  assumes "body \<noteq> JNull"
  shows "(fst (fst (delete_handler ObjectId db body)) = 400 \<longleftrightarrow> ids_refused body)
       \<and> (ids_refused body \<longrightarrow> delete_handler ObjectId db body = ((400, None), db))
       \<and> (get_prop body ''ids'' = Some (JArr ids) \<and> ids \<noteq> []
            \<and> map_ObjectId ObjectId ids = Inr objectIds \<longrightarrow>
            delete_handler ObjectId db body =
              ((200, Some (fst (deleteMany db objectIds))), snd (deleteMany db objectIds))
            \<and> deleteMany db objectIds
                = deleteMany db (filter (\<lambda>x. x \<in> q_id ` set (questions db)) objectIds)
            \<and> (list_all (\<lambda>x. x \<notin> q_id ` set (questions db)) objectIds \<longrightarrow>
                 delete_handler ObjectId db body = ((200, Some 0), db)))"
proof (intro conjI impI)
  show "(fst (fst (delete_handler ObjectId db body)) = 400) = ids_refused body"
  proof (cases "ids_refused body")
    case True
    with delete_handler_refused [OF assms] show ?thesis by simp
  next
    case False
    then obtain ids where i: "get_prop body ''ids'' = Some (JArr ids)" "ids \<noteq> []"
      by (auto simp: ids_refused_def split: option.splits json.splits)
    show ?thesis
    proof (cases "map_ObjectId ObjectId ids")
      case (Inl e)
      from delete_handler_thrown [OF assms i this] False show ?thesis by simp
    next
      case (Inr objectIds)
      from delete_handler_accepted [OF assms i this] False show ?thesis by simp
    qed
  qed
next
  assume "ids_refused body"
  with assms show "delete_handler ObjectId db body = ((400, None), db)"
    by (rule delete_handler_refused)
next
  assume a: "get_prop body ''ids'' = Some (JArr ids) \<and> ids \<noteq> []
            \<and> map_ObjectId ObjectId ids = Inr objectIds"
  then show "delete_handler ObjectId db body =
              ((200, Some (fst (deleteMany db objectIds))), snd (deleteMany db objectIds))"
    using delete_handler_accepted [OF assms] by blast
  show "deleteMany db objectIds
          = deleteMany db (filter (\<lambda>x. x \<in> q_id ` set (questions db)) objectIds)"
    by (rule deleteMany_present_only [symmetric])
  assume "list_all (\<lambda>x. x \<notin> q_id ` set (questions db)) objectIds"
  then have "deleteMany db objectIds = (0, db)" by (rule deleteMany_absent)
  with a show "delete_handler ObjectId db body = ((200, Some 0), db)"
    using delete_handler_accepted [OF assms, of ids ObjectId objectIds db] by simp
qed

text \<open>
  A witness: the store holds one question; a request for an identifier that no question
  has succeeds with the count 0 and leaves the store as it is.
\<close>

theorem delete_status_and_count_witness:
  "delete_handler objectId
     \<lparr>step1 = [], step2 = [], step3 = [],
       questions = [\<lparr>q_id = ''65f0000000000000000000aa'', q_question = JStr ''Q'',
          q_options = ''[]'', q_correct = Finite 0, q_explanation = JStr [],
          q_subject = JStr [], q_difficulty = JStr ''Hard'', q_createdAt = 17,
          q_type = ''ai-generated''\<rparr>],
       scores = []\<rparr>
     (JObj [(''ids'', JArr [JStr ''65f0000000000000000000bb''])])
   = ((200, Some 0),
      \<lparr>step1 = [], step2 = [], step3 = [],
       questions = [\<lparr>q_id = ''65f0000000000000000000aa'', q_question = JStr ''Q'',
          q_options = ''[]'', q_correct = Finite 0, q_explanation = JStr [],
          q_subject = JStr [], q_difficulty = JStr ''Hard'', q_createdAt = 17,
          q_type = ''ai-generated''\<rparr>],
       scores = []\<rparr>)"
proof -
  have b: "JObj [(''ids'', JArr [JStr ''65f0000000000000000000bb''])] \<noteq> JNull"
    by simp
  have i: "get_prop (JObj [(''ids'', JArr [JStr ''65f0000000000000000000bb''])]) ''ids''
             = Some (JArr [JStr ''65f0000000000000000000bb''])
           \<and> [JStr ''65f0000000000000000000bb''] \<noteq> []
           \<and> map_ObjectId objectId [JStr ''65f0000000000000000000bb'']
               = Inr [''65f0000000000000000000bb'']"
    by code_simp
  have a: "list_all (\<lambda>x. x \<notin> q_id ` set (questions
     \<lparr>step1 = [], step2 = [], step3 = [],
       questions = [\<lparr>q_id = ''65f0000000000000000000aa'', q_question = JStr ''Q'',
          q_options = ''[]'', q_correct = Finite 0, q_explanation = JStr [],
          q_subject = JStr [], q_difficulty = JStr ''Hard'', q_createdAt = 17,
          q_type = ''ai-generated''\<rparr>],
       scores = []\<rparr>)) [''65f0000000000000000000bb'']"
    by simp
  from delete_status_and_count [OF b, THEN conjunct2, THEN conjunct2, rule_format, OF i,
      THEN conjunct2, THEN conjunct2, rule_format, OF a]
  show ?thesis .
qed

text \<open>
  The claim as stated fails: the \<open>ids\<close> array below is not empty and its identifier is
  not present in the store, and the request ends with the status 500, since the driver
  throws for a string that is not 24 hexadecimal characters.
\<close>

theorem malformed_id_counterexample:
  "\<not> ids_refused (JObj [(''ids'', JArr [JStr ''xyz''])])
   \<and> delete_handler objectId
       \<lparr>step1 = [], step2 = [], step3 = [], questions = [], scores = []\<rparr>
       (JObj [(''ids'', JArr [JStr ''xyz''])])
     = ((500, None), \<lparr>step1 = [], step2 = [], step3 = [], questions = [], scores = []\<rparr>)"
  by code_simp

section \<open>The questions endpoint: listing\<close>

text \<open>No listing of questions reads the \<open>questions\<close> collection.\<close>

lemma listing_ignores_questions:
  "type_param \<noteq> Some ''stats'' \<Longrightarrow>
     handleGet S shuffle (db\<lparr>questions := qs\<rparr>) type_param limit step
       = handleGet S shuffle db type_param limit step"
  by (simp add: handleGet_def allQuestions_def step_collection_def)

text \<open>
  Claim C5 is not what the code does. A question is inserted into an empty store by
  POST /api/questions, which answers 201 and stores it in \<open>questions\<close>; the listing
  without a step, read afterwards, is empty: the inserted record is not among the
  results.
\<close>

theorem inserted_question_not_listed:
  "post_handler json_parse json_stringify ''65f000000000000000000001'' 17
      \<lparr>step1 = [], step2 = [], step3 = [], questions = [], scores = []\<rparr>
      (JObj [(''question'', JStr ''Q''), (''options'', JArr [JStr ''a'', JStr ''b'']),
             (''correct'', JNum (Finite 0)), (''subject'', JStr ''Cardiology''),
             (''difficulty'', JStr ''Hard'')])
    = ((201, Question
          \<lparr>q_id = ''65f000000000000000000001'', q_question = JStr ''Q'',
            q_options = [CHR ''['', CHR 0x22, CHR ''a'', CHR 0x22, CHR '','',
                         CHR 0x22, CHR ''b'', CHR 0x22, CHR '']''],
            q_correct = Finite 0, q_explanation = JStr [], q_subject = JStr ''Cardiology'',
            q_difficulty = JStr ''Hard'', q_createdAt = 17,
            q_type = ''ai-generated''\<rparr>),
       \<lparr>step1 = [], step2 = [], step3 = [],
        questions = [\<lparr>q_id = ''65f000000000000000000001'', q_question = JStr ''Q'',
            q_options = [CHR ''['', CHR 0x22, CHR ''a'', CHR 0x22, CHR '','',
                         CHR 0x22, CHR ''b'', CHR 0x22, CHR '']''],
            q_correct = Finite 0, q_explanation = JStr [], q_subject = JStr ''Cardiology'',
            q_difficulty = JStr ''Hard'', q_createdAt = 17,
            q_type = ''ai-generated''\<rparr>],
        scores = []\<rparr>)
   \<and> handleGet json_stringify (\<lambda>xs. xs)
       \<lparr>step1 = [], step2 = [], step3 = [],
        questions = [\<lparr>q_id = ''65f000000000000000000001'', q_question = JStr ''Q'',
            q_options = [CHR ''['', CHR 0x22, CHR ''a'', CHR 0x22, CHR '','',
                         CHR 0x22, CHR ''b'', CHR 0x22, CHR '']''],
            q_correct = Finite 0, q_explanation = JStr [], q_subject = JStr ''Cardiology'',
            q_difficulty = JStr ''Hard'', q_createdAt = 17,
            q_type = ''ai-generated''\<rparr>],
        scores = []\<rparr> None None None
     = QuestionsReply []"
  by code_simp

end
